theory Spec2Isabelle
  imports Complex_Main "HOL-Library.Sublist"
begin

section \<open>The study-management backend: store, routes and export formatters\<close>

text \<open>
  The backend is one file of Express route handlers over a MySQL pool. Each handler is
  modelled as a function from the request body and the store to a response and the new
  store. A response is \<open>Inr\<close> of the JSON value the handler sends with \<open>success: true\<close>,
  or \<open>Inl\<close> of the error it sends with a 4xx or 5xx status.

  Conventions of the model:
  \<^item> a table is the list of its rows in insertion order; \<open>INSERT\<close> appends a row,
    \<open>UPDATE ... WHERE\<close> rewrites every row that matches, \<open>SELECT ... WHERE\<close> filters,
    \<open>DELETE ... WHERE\<close> removes every row that matches;
    \<open>result.insertId\<close> is the table's AUTO_INCREMENT counter, kept in the store;
  \<^item> a request body field is present and of the type of the column it is bound to,
    except where the handler itself tests for a missing field (then it is an \<open>option\<close>);
  \<^item> strings are lists of 8-bit characters (code units up to U+00FF); a number of a
    request body or of a generated reply is an integer (\<open>int\<close>); the numbers the
    study plan handler computes are doubles, modelled by \<open>number\<close>: their arithmetic is
    computed where it is exact on doubles and is a parameter elsewhere;
  \<^item> the clock, the locale's date formatting, the \<open>Date\<close> constructor and the
    text-generation service are parameters of the handlers (the record \<open>env\<close>); a
    reply of the generation service that \<open>JSON.parse\<close> accepts is taken to have the
    shape the prompt demands; a row is stored with the values the \<open>INSERT\<close> binds, a
    \<open>NaN\<close> included;
  \<^item> a statement fails only where a foreign key forbids it: apart from that, a
    \<open>catch\<close> branch is reached only through the generation call or \<open>JSON.parse\<close>.
\<close>

subsection \<open>Errors\<close>

datatype error =
    BadRequest string       \<comment> \<open>\<open>res.status(400).json({ error })\<close>\<close>
  | NotFound string         \<comment> \<open>\<open>res.status(404).json({ error })\<close>\<close>
  | ServerError string      \<comment> \<open>\<open>res.status(500).json({ error })\<close>, from a \<open>catch\<close>\<close>

subsection \<open>Numbers\<close>

text \<open>
  The values a double can take in the study plan handler: an integer, \<open>NaN\<close> (an
  invalid date, and what is computed from it) or an infinity (a product that overflows).
\<close>

datatype number = Num int | NaN | PosInfinity | NegInfinity

subsection \<open>Rows of the five tables\<close>

record week_entry =
  week :: int
  topic :: string
  hours :: int
  tasks :: "string list"

record study_plan_row =
  sp_id :: int
  course_name :: string
  deadline :: string
  hours_per_day :: int
  days_until :: number
  total_hours :: number
  plan_json :: "week_entry list"
  progress :: int
  completed :: bool
  sp_created_at :: int

datatype note_source = Pdf | LocalFile | Ai

record note_row =
  note_id :: int
  title :: string
  content :: string
  source :: note_source
  file_name :: "string option"
  note_created_at :: int

record flashcard_set_row =
  fs_id :: int
  fs_topic :: string
  total_count :: nat
  known_count :: nat
  fs_created_at :: int

record flashcard_row =
  fc_id :: int
  set_id :: int
  question :: string
  answer :: string
  known :: bool

datatype chat_role = User | Assistant

record chat_row =
  chat_id :: int
  role :: chat_role
  chat_content :: string
  chat_created_at :: int

record db =
  study_plans :: "study_plan_row list"
  "notes" :: "note_row list"
  flashcard_sets :: "flashcard_set_row list"
  flashcards :: "flashcard_row list"
  chat_history :: "chat_row list"
  next_plan_id :: int
  next_note_id :: int
  next_set_id :: int
  next_card_id :: int
  next_chat_id :: int

definition empty_db :: db where
  "empty_db = \<lparr>study_plans = [], notes = [], flashcard_sets = [], flashcards = [],
     chat_history = [], next_plan_id = 1, next_note_id = 1, next_set_id = 1,
     next_card_id = 1, next_chat_id = 1\<rparr>"

subsection \<open>SQL statements on a table\<close>

definition sql_update :: "('r \<Rightarrow> bool) \<Rightarrow> ('r \<Rightarrow> 'r) \<Rightarrow> 'r list \<Rightarrow> 'r list" where
  "sql_update wh st rows = map (\<lambda>r. if wh r then st r else r) rows"

definition sql_select :: "('r \<Rightarrow> bool) \<Rightarrow> 'r list \<Rightarrow> 'r list" where
  "sql_select wh rows = filter wh rows"

definition sql_delete :: "('r \<Rightarrow> bool) \<Rightarrow> 'r list \<Rightarrow> 'r list" where
  "sql_delete wh rows = filter (\<lambda>r. \<not> wh r) rows"

subsection \<open>The environment of a request\<close>

record generated_card =
  gc_question :: string
  gc_answer :: string

text \<open>
  The prompts are fixed templates; a prompt is modelled by the values interpolated into
  its template, in the order they first occur.
\<close>

record plan_prompt =
  pp_daysUntil :: number
  pp_courseName :: string
  pp_weeks :: number
  pp_totalHours :: number
  pp_hoursPerDay :: int

record cards_prompt =
  cp_cardCount :: int
  cp_topic :: "string option"

text \<open>
  \<open>now\<close> is the clock in milliseconds since the epoch (\<open>new Date()\<close>, \<open>Date.now()\<close>),
  read once per request; \<open>date_value\<close> is \<open>new Date(s)\<close> as a time value, \<open>None\<close> for
  a string the \<open>Date\<close> constructor rejects (Invalid Date, whose time value is \<open>NaN\<close>);
  \<open>toLocaleDateString\<close> and \<open>toLocaleString\<close> are the locale's renderings of a stored
  deadline and of a stored timestamp. \<open>generate_plan\<close> and \<open>generate_cards\<close> are the call to
  the generation service followed by \<open>JSON.parse\<close>: \<open>None\<close> when either throws.
  \<open>inexact_days\<close>, \<open>inexact_times\<close> and \<open>inexact_weeks\<close> are the double arithmetic of
  the study plan handler outside the ranges in which it is exact (see below).
\<close>

record env =
  now :: int
  date_value :: "string \<Rightarrow> int option"
  toLocaleDateString :: "string \<Rightarrow> string"
  toLocaleString :: "int \<Rightarrow> string"
  generate_plan :: "plan_prompt \<Rightarrow> week_entry list option"
  generate_cards :: "cards_prompt \<Rightarrow> generated_card list option"
  inexact_days :: "int \<Rightarrow> number"
  inexact_times :: "number \<Rightarrow> int \<Rightarrow> number"
  inexact_weeks :: "number \<Rightarrow> number"

subsection \<open>JavaScript values\<close>

text \<open>\<open>!s\<close> for a body field that holds a string or is missing, and for a number.\<close>

definition truthy_string :: "string option \<Rightarrow> bool" where
  "truthy_string s = (case s of None \<Rightarrow> False | Some t \<Rightarrow> t \<noteq> [])"

definition truthy_number :: "int option \<Rightarrow> bool" where
  "truthy_number n = (case n of None \<Rightarrow> False | Some k \<Rightarrow> k \<noteq> 0)"

text \<open>\<open>Math.ceil(a / b)\<close> for integers \<open>a\<close> and \<open>b > 0\<close>.\<close>

definition ceil_div :: "int \<Rightarrow> int \<Rightarrow> int" where
  "ceil_div a b = - ((- a) div b)"

definition ms_per_day :: int where
  "ms_per_day = 1000 * 60 * 60 * 24"

text \<open>The decimal rendering of an integer in a template literal.\<close>

definition digit_char :: "nat \<Rightarrow> char" where
  "digit_char n = ''0123456789'' ! n"

function show_nat :: "nat \<Rightarrow> string" where
  "show_nat n = (if n < 10 then [digit_char n] else show_nat (n div 10) @ [digit_char (n mod 10)])"
  by pat_completeness auto
termination
  by (relation "measure id") auto

declare show_nat.simps [simp del]

definition show_int :: "int \<Rightarrow> string" where
  "show_int i = (if i < 0 then CHR ''-'' # show_nat (nat (- i)) else show_nat (nat i))"

text \<open>A number in a template literal.\<close>

definition show_number :: "number \<Rightarrow> string" where
  "show_number x =
     (case x of Num i \<Rightarrow> show_int i | NaN \<Rightarrow> ''NaN'' | PosInfinity \<Rightarrow> ''Infinity''
      | NegInfinity \<Rightarrow> ''-Infinity'')"

text \<open>
  Double arithmetic on integers. A double holds every integer up to \<open>2^53\<close> in absolute
  value, so a difference or a product of integers is exact when the exact result is in
  that range. \<open>Math.ceil(a / b)\<close> is the ceiling of the exact quotient when \<open>a\<close> is in
  that range, \<open>0 < b < 2^28\<close> and the quotient is below \<open>2^26\<close> in absolute value: the
  division is then rounded by at most \<open>2^-28\<close>, and a quotient that is no integer is
  further than that from every integer. Outside these ranges the result is what the
  environment gives.
\<close>

definition safe_integer :: "int \<Rightarrow> bool" where
  "safe_integer i = (\<bar>i\<bar> \<le> 2 ^ 53)"

definition exact_quotient :: "int \<Rightarrow> int \<Rightarrow> bool" where
  "exact_quotient a b = (0 < b \<and> b < 2 ^ 28 \<and> \<bar>a\<bar> < 2 ^ 26 * b \<and> safe_integer a)"

text \<open>\<open>Math.ceil((deadlineDate - today) / (1000 * 60 * 60 * 24))\<close>.\<close>

definition days_between :: "env \<Rightarrow> int option \<Rightarrow> int \<Rightarrow> number" where
  "days_between e deadlineDate today =
     (case deadlineDate of
        None \<Rightarrow> NaN
      | Some t \<Rightarrow>
          if exact_quotient (t - today) ms_per_day
          then Num (ceil_div (t - today) ms_per_day)
          else inexact_days e (t - today))"

text \<open>\<open>daysUntil * hoursPerDay\<close>.\<close>

definition js_times :: "env \<Rightarrow> number \<Rightarrow> int \<Rightarrow> number" where
  "js_times e a h =
     (case a of
        Num i \<Rightarrow> if safe_integer (i * h) then Num (i * h) else inexact_times e a h
      | NaN \<Rightarrow> NaN
      | PosInfinity \<Rightarrow> inexact_times e a h
      | NegInfinity \<Rightarrow> inexact_times e a h)"

text \<open>\<open>Math.ceil(daysUntil / 7)\<close>.\<close>

definition js_weeks :: "env \<Rightarrow> number \<Rightarrow> number" where
  "js_weeks e a =
     (case a of
        Num i \<Rightarrow> if exact_quotient i 7 then Num (ceil_div i 7) else inexact_weeks e a
      | NaN \<Rightarrow> NaN
      | PosInfinity \<Rightarrow> PosInfinity
      | NegInfinity \<Rightarrow> NegInfinity)"

text \<open>\<open>daysUntil <= 0\<close>: false of \<open>NaN\<close>.\<close>

definition js_le_zero :: "number \<Rightarrow> bool" where
  "js_le_zero a =
     (case a of Num i \<Rightarrow> i \<le> 0 | NaN \<Rightarrow> False | PosInfinity \<Rightarrow> False
      | NegInfinity \<Rightarrow> True)"

definition nl :: string where
  "nl = [CHR 0x0A]"

text \<open>\<open>xs.join(sep)\<close>.\<close>

fun join :: "string \<Rightarrow> string list \<Rightarrow> string" where
  "join sep [] = []"
| "join sep [x] = x"
| "join sep (x # y # ys) = x @ sep @ join sep (y # ys)"

text \<open>
  The class \<open>\s\<close> of a regular expression, on 8-bit characters: tab, line feed, vertical
  tab, form feed, carriage return, space and the no-break space.
\<close>

definition is_space :: "char \<Rightarrow> bool" where
  "is_space c = (c \<in> set [CHR 0x09, CHR 0x0A, CHR 0x0B, CHR 0x0C, CHR 0x0D, CHR 0x20, CHR 0xA0])"

text \<open>\<open>s.replace(/\s+/g, '-')\<close>: each maximal run of whitespace becomes one hyphen.\<close>

function replace_ws :: "string \<Rightarrow> string" where
  "replace_ws [] = []"
| "replace_ws (c # cs) =
     (if is_space c then CHR ''-'' # replace_ws (dropWhile is_space cs)
      else c # replace_ws cs)"
  by pat_completeness auto
termination
  by (relation "measure length") (auto simp: length_dropWhile_le less_Suc_eq_le)

subsection \<open>POST /generate-study-plan\<close>

record plan_request =
  gp_courseName :: "string option"
  gp_deadline :: "string option"
  gp_hoursPerDay :: "int option"

definition generate_study_plan :: "env \<Rightarrow> plan_request \<Rightarrow> db \<Rightarrow> (error + study_plan_row) \<times> db" where
  "generate_study_plan e req d =
     (if \<not> truthy_string (gp_courseName req) \<or> \<not> truthy_string (gp_deadline req)
         \<or> \<not> truthy_number (gp_hoursPerDay req)
      then (Inl (BadRequest ''Missing required fields''), d)
      else
        let courseName = the (gp_courseName req);
            deadline = the (gp_deadline req);
            hoursPerDay = the (gp_hoursPerDay req);
            deadlineDate = date_value e deadline;
            today = now e;
            daysUntil = days_between e deadlineDate today;
            totalHours = js_times e daysUntil hoursPerDay
        in if js_le_zero daysUntil
           then (Inl (BadRequest ''Deadline must be in the future''), d)
           else
             (case generate_plan e \<lparr>pp_daysUntil = daysUntil, pp_courseName = courseName,
                      pp_weeks = js_weeks e daysUntil, pp_totalHours = totalHours,
                      pp_hoursPerDay = hoursPerDay\<rparr> of
                None \<Rightarrow>
                  (Inl (ServerError ''Failed to generate study plan from AI. Check API key/model.''), d)
              | Some planData \<Rightarrow>
                  let row = \<lparr>sp_id = next_plan_id d, course_name = courseName,
                             deadline = deadline, hours_per_day = hoursPerDay,
                             days_until = daysUntil, total_hours = totalHours,
                             plan_json = planData, progress = 0, completed = False,
                             sp_created_at = now e\<rparr>;
                      studyPlan = \<lparr>sp_id = next_plan_id d, course_name = courseName,
                             deadline = deadline, hours_per_day = hoursPerDay,
                             days_until = daysUntil, total_hours = totalHours,
                             plan_json = planData, progress = 0, completed = False,
                             sp_created_at = now e\<rparr>
                  in (Inr studyPlan,
                      d\<lparr>study_plans := study_plans d @ [row],
                        next_plan_id := next_plan_id d + 1\<rparr>)))"

subsection \<open>POST /update-study-progress\<close>

record progress_request =
  pr_id :: int
  pr_progress :: int
  pr_completed :: bool

text \<open>
  The handler runs the \<open>UPDATE\<close> first, then selects the row by id and answers 404 when
  the selection is empty.
\<close>

definition update_study_progress :: "progress_request \<Rightarrow> db \<Rightarrow> (error + study_plan_row) \<times> db" where
  "update_study_progress req d =
     (let d1 = d\<lparr>study_plans :=
                  sql_update (\<lambda>r. sp_id r = pr_id req)
                    (\<lambda>r. r\<lparr>progress := pr_progress req, completed := pr_completed req\<rparr>)
                    (study_plans d)\<rparr>;
          rows = sql_select (\<lambda>r. sp_id r = pr_id req) (study_plans d1)
      in case rows of
           r # _ \<Rightarrow> (Inr r, d1)
         | [] \<Rightarrow> (Inl (NotFound ''Study plan not found''), d1))"

subsection \<open>POST /upload-pdf\<close>

record upload_request =
  up_fileName :: string
  up_fileContent :: string

text \<open>The note the handler answers with: \<open>{ id, title, content, source, createdAt }\<close>.\<close>

record note_view =
  nv_id :: int
  nv_title :: string
  nv_content :: string
  nv_source :: note_source
  nv_createdAt :: int

definition upload_pdf :: "env \<Rightarrow> upload_request \<Rightarrow> db \<Rightarrow> (error + note_view) \<times> db" where
  "upload_pdf e req d =
     (let fileName = up_fileName req;
          fileContent = up_fileContent req;
          content = ''# Notes from '' @ fileName @ nl @ nl @ ''## Summary'' @ nl
            @ ''This is a mock extraction from the uploaded PDF file.'' @ nl @ nl
            @ ''## Key Points'' @ nl
            @ ''- Point 1: Important concept from the document'' @ nl
            @ ''- Point 2: Critical information extracted'' @ nl
            @ ''- Point 3: Summary of main ideas'' @ nl @ nl
            @ ''## Detailed Notes'' @ nl
            @ ''The document contains valuable information that has been processed and summarized for easy review.''
      in (Inr \<lparr>nv_id = next_note_id d, nv_title = ''Notes from '' @ fileName,
                nv_content = content, nv_source = Pdf, nv_createdAt = now e\<rparr>,
          d\<lparr>notes := notes d @ [\<lparr>note_id = next_note_id d,
                   title = ''Notes from '' @ fileName, content = content, source = Pdf,
                   file_name = Some fileName, note_created_at = now e\<rparr>],
            next_note_id := next_note_id d + 1\<rparr>))"

subsection \<open>POST /generate-flashcards\<close>

record flashcards_request =
  gf_topic :: "string option"
  gf_count :: "int option"

text \<open>A card and a set as the handlers answer with them.\<close>

record card_view =
  cv_id :: int
  cv_question :: string
  cv_answer :: string
  cv_known :: bool

record flashcard_set_view =
  fsv_id :: int
  fsv_topic :: string
  cards :: "card_view list"
  createdAt :: int
  knownCount :: nat
  totalCount :: nat

text \<open>\<open>count || 5\<close> and the two values interpolated into the prompt.\<close>

definition cards_prompt_of :: "flashcards_request \<Rightarrow> cards_prompt" where
  "cards_prompt_of req =
     \<lparr>cp_cardCount = (if truthy_number (gf_count req) then the (gf_count req) else 5),
      cp_topic = gf_topic req\<rparr>"

text \<open>\<open>topic || 'General Study'\<close>.\<close>

definition topic_or_default :: "string option \<Rightarrow> string" where
  "topic_or_default t = (if truthy_string t then the t else ''General Study'')"

text \<open>The loop over \<open>generatedCards\<close>: one \<open>INSERT\<close> and one \<open>cards.push\<close> per card.\<close>

fun insert_cards :: "int \<Rightarrow> generated_card list \<Rightarrow> card_view list \<times> db \<Rightarrow> card_view list \<times> db" where
  "insert_cards setId [] (cs, d) = (cs, d)"
| "insert_cards setId (c # rest) (cs, d) =
     insert_cards setId rest
       (cs @ [\<lparr>cv_id = next_card_id d, cv_question = gc_question c,
                cv_answer = gc_answer c, cv_known = False\<rparr>],
        d\<lparr>flashcards := flashcards d @ [\<lparr>fc_id = next_card_id d, set_id = setId,
               question = gc_question c, answer = gc_answer c, known = False\<rparr>],
          next_card_id := next_card_id d + 1\<rparr>)"

definition generate_flashcards ::
    "env \<Rightarrow> flashcards_request \<Rightarrow> db \<Rightarrow> (error + flashcard_set_view) \<times> db" where
  "generate_flashcards e req d =
     (case generate_cards e (cards_prompt_of req) of
        None \<Rightarrow>
          (Inl (ServerError ''Failed to generate flashcards from AI. Check API key/model.''), d)
      | Some generatedCards \<Rightarrow>
          let setId = next_set_id d;
              d1 = d\<lparr>flashcard_sets := flashcard_sets d @ [\<lparr>fs_id = setId,
                       fs_topic = topic_or_default (gf_topic req),
                       total_count = length generatedCards,
                       known_count = 0, fs_created_at = now e\<rparr>],
                     next_set_id := next_set_id d + 1\<rparr>;
              (cs, d2) = insert_cards setId generatedCards ([], d1)
          in (Inr \<lparr>fsv_id = setId, fsv_topic = topic_or_default (gf_topic req), cards = cs,
                    createdAt = now e, knownCount = 0, totalCount = length cs\<rparr>, d2))"

subsection \<open>POST /save-flashcard-status\<close>

record status_request =
  st_setId :: int
  st_cardId :: int
  st_known :: bool

definition card_view_of :: "flashcard_row \<Rightarrow> card_view" where
  "card_view_of c = \<lparr>cv_id = fc_id c, cv_question = question c, cv_answer = answer c,
     cv_known = known c\<rparr>"

text \<open>
  The card is written first; the set is looked up afterwards, and only when it exists
  is \<open>known_count\<close> recomputed from the cards of the set and written back.
\<close>

definition save_flashcard_status ::
    "status_request \<Rightarrow> db \<Rightarrow> (error + flashcard_set_view) \<times> db" where
  "save_flashcard_status req d =
     (let setId = st_setId req;
          d1 = d\<lparr>flashcards :=
                  sql_update (\<lambda>c. fc_id c = st_cardId req \<and> set_id c = setId)
                    (\<lambda>c. c\<lparr>known := st_known req\<rparr>) (flashcards d)\<rparr>;
          sets = sql_select (\<lambda>s. fs_id s = setId) (flashcard_sets d1)
      in case sets of
           s # _ \<Rightarrow>
             let cs = sql_select (\<lambda>c. set_id c = setId) (flashcards d1);
                 newKnownCount = length (filter known cs);
                 d2 = d1\<lparr>flashcard_sets :=
                         sql_update (\<lambda>s. fs_id s = setId)
                           (\<lambda>s. s\<lparr>known_count := newKnownCount\<rparr>) (flashcard_sets d1)\<rparr>
             in (Inr \<lparr>fsv_id = fs_id s, fsv_topic = fs_topic s, cards = map card_view_of cs,
                       createdAt = fs_created_at s, knownCount = newKnownCount,
                       totalCount = total_count s\<rparr>, d2)
         | [] \<Rightarrow> (Inl (NotFound ''Flashcard set not found''), d1))"

definition run_status_calls :: "status_request list \<Rightarrow> db \<Rightarrow> db" where
  "run_status_calls reqs d = foldl (\<lambda>st req. snd (save_flashcard_status req st)) d reqs"

subsection \<open>DELETE /flashcard/:id\<close>

text \<open>
  The handler issues one statement, \<open>DELETE FROM flashcard_sets WHERE id = ?\<close>. What
  happens to the rows of \<open>flashcards\<close> that reference the set is decided by the schema,
  which is not among the sources: the referential action of \<open>flashcards.set_id\<close> is a
  parameter of the model (no foreign key at all, a foreign key that restricts the delete,
  or one declared \<open>ON DELETE CASCADE\<close>).
\<close>

datatype fk_action = NoForeignKey | Restrict | Cascade

definition sql_delete_flashcard_set :: "fk_action \<Rightarrow> int \<Rightarrow> db \<Rightarrow> db option" where
  "sql_delete_flashcard_set fk ident d =
     (let parent = (sql_select (\<lambda>s. fs_id s = ident) (flashcard_sets d) \<noteq> []);
          children = (sql_select (\<lambda>c. set_id c = ident) (flashcards d) \<noteq> []);
          d1 = d\<lparr>flashcard_sets := sql_delete (\<lambda>s. fs_id s = ident) (flashcard_sets d)\<rparr>
      in case fk of
           NoForeignKey \<Rightarrow> Some d1
         | Restrict \<Rightarrow> if parent \<and> children then None else Some d1
         | Cascade \<Rightarrow>
             if parent
             then Some (d1\<lparr>flashcards := sql_delete (\<lambda>c. set_id c = ident) (flashcards d1)\<rparr>)
             else Some d1)"

definition delete_flashcard :: "fk_action \<Rightarrow> int \<Rightarrow> db \<Rightarrow> (error + unit) \<times> db" where
  "delete_flashcard fk ident d =
     (case sql_delete_flashcard_set fk ident d of
        Some d1 \<Rightarrow> (Inr (), d1)
      | None \<Rightarrow> (Inl (ServerError ''Failed to delete flashcard set''), d))"

subsection \<open>GET /dashboard-stats\<close>

text \<open>
  \<open>SUM\<close> over no rows is \<open>NULL\<close>, which \<open>|| 0\<close> turns into 0. \<open>JSON_LENGTH(plan_json)\<close> is
  the number of elements of the stored array, which is never \<open>NULL\<close>: the insert always
  binds \<open>JSON.stringify(planData)\<close>. \<open>progress / 100\<close> is an exact decimal division.
\<close>

definition sql_sum :: "int list \<Rightarrow> int option" where
  "sql_sum xs = (if xs = [] then None else Some (sum_list xs))"

definition or_zero :: "int option \<Rightarrow> int" where
  "or_zero v = (case v of None \<Rightarrow> 0 | Some n \<Rightarrow> if n = 0 then 0 else n)"

definition json_length :: "study_plan_row \<Rightarrow> int" where
  "json_length p = int (length (plan_json p))"

definition completed_of :: "study_plan_row \<Rightarrow> int" where
  "completed_of p = \<lfloor>(rat_of_int (progress p) / 100) * rat_of_int (json_length p)\<rfloor>"

record dashboard =
  totalNotes :: int
  totalStudyPlans :: int
  totalFlashcards :: int
  totalTasks :: int
  completedTasks :: int

definition dashboard_stats :: "db \<Rightarrow> dashboard" where
  "dashboard_stats d =
     (let notesCount = int (length (notes d));
          plansCount = int (length (study_plans d));
          flashcardsCount = sql_sum (map (\<lambda>s. int (total_count s)) (flashcard_sets d));
          total = sql_sum (map json_length (study_plans d));
          completed = sql_sum (map completed_of (study_plans d))
      in \<lparr>totalNotes = notesCount, totalStudyPlans = plansCount,
           totalFlashcards = or_zero flashcardsCount, totalTasks = or_zero total,
           completedTasks = or_zero completed\<rparr>)"

subsection \<open>Export formatters\<close>

definition rule50 :: string where
  "rule50 = replicate 50 CHR ''=''"

text \<open>
  What the formatter writes before a task: a space, a no-break space (U+00A0), a hyphen
  and a space.
\<close>

definition task_prefix :: string where
  "task_prefix = [CHR 0x20, CHR 0xA0, CHR 0x2D, CHR 0x20]"

definition format_week :: "week_entry \<Rightarrow> string" where
  "format_week w =
     ''Week '' @ show_int (week w) @ '': '' @ topic w @ nl
     @ ''Hours: '' @ show_int (hours w) @ nl
     @ ''Tasks:'' @ nl @ join nl (map (\<lambda>t. task_prefix @ t) (tasks w)) @ nl"

definition formatStudyPlanForExport :: "env \<Rightarrow> study_plan_row \<Rightarrow> string" where
  "formatStudyPlanForExport e plan =
     (let header = ''STUDY PLAN: '' @ course_name plan @ nl @ rule50 @ nl @ nl;
          details = ''Deadline: '' @ toLocaleDateString e (deadline plan) @ nl
            @ ''Hours per day: '' @ show_int (hours_per_day plan) @ nl
            @ ''Total hours: '' @ show_number (total_hours plan) @ nl
            @ ''Progress: '' @ show_int (progress plan) @ ''%'' @ nl @ nl;
          weeks = join nl (map format_week (plan_json plan))
      in header @ details @ weeks @ nl @ ''Created: ''
         @ toLocaleString e (sp_created_at plan) @ nl)"

definition role_upper :: "chat_role \<Rightarrow> string" where
  "role_upper r = (case r of User \<Rightarrow> ''USER'' | Assistant \<Rightarrow> ''ASSISTANT'')"

definition formatChatHistoryForExport :: "env \<Rightarrow> chat_row list \<Rightarrow> string" where
  "formatChatHistoryForExport e history =
     (let header = ''CHAT HISTORY'' @ nl @ rule50 @ nl @ nl;
          messages = join nl (map (\<lambda>msg. ''['' @ toLocaleString e (chat_created_at msg) @ ''] ''
                        @ role_upper (role msg) @ '':'' @ nl @ chat_content msg @ nl) history)
      in header @ messages)"

definition format_card :: "nat \<times> flashcard_row \<Rightarrow> string" where
  "format_card ic =
     ''Card '' @ show_int (int (fst ic) + 1) @ '':'' @ nl
     @ ''Q: '' @ question (snd ic) @ nl
     @ ''A: '' @ answer (snd ic) @ nl
     @ ''Status: '' @ (if known (snd ic) then ''Known'' else ''Unknown'') @ nl"

definition formatFlashcardsForExport :: "env \<Rightarrow> flashcard_set_row \<Rightarrow> flashcard_row list \<Rightarrow> string" where
  "formatFlashcardsForExport e flashcardSet cs =
     (let header = ''FLASHCARDS: '' @ fs_topic flashcardSet @ nl @ rule50 @ nl @ nl
            @ ''Total Cards: '' @ show_int (int (total_count flashcardSet)) @ nl
            @ ''Known: '' @ show_int (int (known_count flashcardSet)) @ nl @ nl;
          body = join nl (map format_card (enumerate 0 cs))
      in header @ body @ ''Created: '' @ toLocaleString e (fs_created_at flashcardSet) @ nl)"

subsection \<open>POST /download-export\<close>

record export_request =
  ex_type :: string
  ex_id :: int
  ex_format :: string

record export_reply =
  ex_content :: string
  ex_filename :: string

text \<open>
  The \<open>switch\<close> leaves \<open>content\<close> and \<open>filename\<close> empty when the record is missing; an
  empty \<open>content\<close> is answered with 404 after the \<open>switch\<close>. The chat history is ordered by
  \<open>created_at\<close>.
\<close>

definition export_stamp :: "env \<Rightarrow> export_request \<Rightarrow> string" where
  "export_stamp e req = ''-'' @ show_int (now e) @ ''.'' @ ex_format req"

definition export_switch :: "env \<Rightarrow> export_request \<Rightarrow> db \<Rightarrow> (string \<times> string) option" where
  "export_switch e req d =
     (if ex_type req = ''study'' then
        (case sql_select (\<lambda>p. sp_id p = ex_id req) (study_plans d) of
           plan # _ \<Rightarrow> Some (formatStudyPlanForExport e plan,
                        ''study-plan-'' @ replace_ws (course_name plan) @ export_stamp e req)
         | [] \<Rightarrow> Some ([], []))
      else if ex_type req = ''notes'' then
        (case sql_select (\<lambda>n. note_id n = ex_id req) (notes d) of
           n # _ \<Rightarrow> Some (content n, ''note-'' @ replace_ws (title n) @ export_stamp e req)
         | [] \<Rightarrow> Some ([], []))
      else if ex_type req = ''chat'' then
        Some (formatChatHistoryForExport e (sort_key chat_created_at (chat_history d)),
              ''chat-history'' @ export_stamp e req)
      else if ex_type req = ''flashcards'' then
        (case sql_select (\<lambda>s. fs_id s = ex_id req) (flashcard_sets d) of
           s # _ \<Rightarrow> Some (formatFlashcardsForExport e s
                             (sql_select (\<lambda>c. set_id c = ex_id req) (flashcards d)),
                        ''flashcards-'' @ replace_ws (fs_topic s) @ export_stamp e req)
         | [] \<Rightarrow> Some ([], []))
      else None)"

definition download_export :: "env \<Rightarrow> export_request \<Rightarrow> db \<Rightarrow> error + export_reply" where
  "download_export e req d =
     (case export_switch e req d of
        None \<Rightarrow> Inl (BadRequest ''Invalid export type'')
      | Some (content_text, filename) \<Rightarrow>
          if content_text = [] then Inl (NotFound ''Content not found'')
          else Inr \<lparr>ex_content = content_text, ex_filename = filename\<rparr>)"

section \<open>Notions used in the statements\<close>

subsection \<open>The rows and cards the insertion loop produces\<close>

fun new_card_rows :: "int \<Rightarrow> int \<Rightarrow> generated_card list \<Rightarrow> flashcard_row list" where
  "new_card_rows sid n [] = []"
| "new_card_rows sid n (g # gs) =
     \<lparr>fc_id = n, set_id = sid, question = gc_question g, answer = gc_answer g, known = False\<rparr>
     # new_card_rows sid (n + 1) gs"

fun new_card_views :: "int \<Rightarrow> generated_card list \<Rightarrow> card_view list" where
  "new_card_views n [] = []"
| "new_card_views n (g # gs) =
     \<lparr>cv_id = n, cv_question = gc_question g, cv_answer = gc_answer g, cv_known = False\<rparr>
     # new_card_views (n + 1) gs"

subsection \<open>The known-count invariant of a flashcard set\<close>

definition count_known :: "int \<Rightarrow> flashcard_row list \<Rightarrow> nat" where
  "count_known sid cs = length (filter known (sql_select (\<lambda>c. set_id c = sid) cs))"

definition known_count_ok :: "int \<Rightarrow> db \<Rightarrow> bool" where
  "known_count_ok sid d =
     (\<forall>s \<in> set (flashcard_sets d).
        fs_id s = sid \<longrightarrow> known_count s = count_known sid (flashcards d))"

text \<open>
  The calls that write \<open>flashcard_sets\<close> or \<open>flashcards\<close>, and a store as a sequence of
  them leaves it. The invariant that every such store satisfies: the ids of the sets and
  the set ids of the cards are below the counter, and every set has the known count of
  its cards.
\<close>

datatype flashcard_call =
    GenerateFlashcards env flashcards_request
  | SaveFlashcardStatus status_request
  | DeleteFlashcard int

definition run_call :: "fk_action \<Rightarrow> db \<Rightarrow> flashcard_call \<Rightarrow> db" where
  "run_call fk d c =
     (case c of
        GenerateFlashcards e req \<Rightarrow> snd (generate_flashcards e req d)
      | SaveFlashcardStatus req \<Rightarrow> snd (save_flashcard_status req d)
      | DeleteFlashcard i \<Rightarrow> snd (delete_flashcard fk i d))"

definition run_calls :: "fk_action \<Rightarrow> flashcard_call list \<Rightarrow> db \<Rightarrow> db" where
  "run_calls fk cs d = foldl (run_call fk) d cs"

definition flashcards_inv :: "db \<Rightarrow> bool" where
  "flashcards_inv d =
     ((\<forall>s \<in> set (flashcard_sets d). fs_id s < next_set_id d)
      \<and> (\<forall>c \<in> set (flashcards d). set_id c < next_set_id d)
      \<and> (\<forall>s \<in> set (flashcard_sets d). known_count s = count_known (fs_id s) (flashcards d)))"

text \<open>
  Referential integrity, as a foreign key on \<open>flashcards.set_id\<close> keeps it: every card
  references a set that exists.
\<close>

definition references_ok :: "db \<Rightarrow> bool" where
  "references_ok d =
     (\<forall>c \<in> set (flashcards d). \<exists>s \<in> set (flashcard_sets d). fs_id s = set_id c)"

text \<open>The two \<open>UPDATE\<close> statements of save-flashcard-status, each on its table.\<close>

definition write_known :: "status_request \<Rightarrow> flashcard_row list \<Rightarrow> flashcard_row list" where
  "write_known req cs =
     sql_update (\<lambda>c. fc_id c = st_cardId req \<and> set_id c = st_setId req)
       (\<lambda>c. c\<lparr>known := st_known req\<rparr>) cs"

definition write_count :: "int \<Rightarrow> nat \<Rightarrow> flashcard_set_row list \<Rightarrow> flashcard_set_row list" where
  "write_count sid n ss = sql_update (\<lambda>s. fs_id s = sid) (\<lambda>s. s\<lparr>known_count := n\<rparr>) ss"

subsection \<open>The export file name and the fields of an export\<close>

text \<open>
  The file name pattern in the words of the specification:
  \<open><type-prefix>-<slug>-<epoch-ms>.<format>\<close>.
\<close>

definition spec_filename :: "string \<Rightarrow> string \<Rightarrow> int \<Rightarrow> string \<Rightarrow> string" where
  "spec_filename type_prefix slug epoch fmt =
     type_prefix @ ''-'' @ slug @ ''-'' @ show_int epoch @ ''.'' @ fmt"

text \<open>
  A text reproduces the fields of a study plan, or of a flashcard set, when each field
  occurs in it as a contiguous piece, next to the label or separator the formatter puts
  before it.
\<close>

definition plan_fields_in :: "study_plan_row \<Rightarrow> string \<Rightarrow> bool" where
  "plan_fields_in p txt =
     (sublist (''STUDY PLAN: '' @ course_name p @ nl) txt
      \<and> sublist (''Hours per day: '' @ show_int (hours_per_day p) @ nl) txt
      \<and> sublist (''Total hours: '' @ show_number (total_hours p) @ nl) txt
      \<and> sublist (''Progress: '' @ show_int (progress p) @ ''%'') txt
      \<and> (\<forall>w \<in> set (plan_json p).
           sublist ('': '' @ topic w @ nl @ ''Hours: '' @ show_int (hours w) @ nl) txt
           \<and> (\<forall>t \<in> set (tasks w). sublist (task_prefix @ t) txt)))"

definition set_fields_in :: "flashcard_set_view \<Rightarrow> string \<Rightarrow> bool" where
  "set_fields_in v txt =
     (sublist (''FLASHCARDS: '' @ fsv_topic v @ nl) txt
      \<and> sublist (''Total Cards: '' @ show_int (int (totalCount v)) @ nl) txt
      \<and> sublist (''Known: '' @ show_int (int (knownCount v)) @ nl) txt
      \<and> (\<forall>c \<in> set (cards v).
           sublist (''Q: '' @ cv_question c @ nl @ ''A: '' @ cv_answer c @ nl) txt))"

text \<open>The ids in use are below the AUTO_INCREMENT counters, so an inserted row has a new id.\<close>

definition auto_increment_ok :: "db \<Rightarrow> bool" where
  "auto_increment_ok d =
     ((\<forall>p \<in> set (study_plans d). sp_id p < next_plan_id d)
      \<and> (\<forall>s \<in> set (flashcard_sets d). fs_id s < next_set_id d))"

section \<open>Sample data\<close>

text \<open>
  A clock at 1000 ms, a \<open>Date\<close> constructor that knows two dates (the epoch and seven
  days later) and rejects every other string, a generation service that answers a
  one-week plan and three cards whatever it is asked.
\<close>

definition env_demo :: env where
  "env_demo = \<lparr>now = 1000,
     date_value = (\<lambda>s. if s = ''1970-01-08'' then Some 604800000
                       else if s = ''1970-01-01'' then Some 0 else None),
     toLocaleDateString = (\<lambda>s. s), toLocaleString = show_int,
     generate_plan = (\<lambda>p. Some [\<lparr>week = 1, topic = ''Groups'', hours = 14,
        tasks = [''Read chapter 1'', ''Exercises'', ''Quiz'']\<rparr>]),
     generate_cards = (\<lambda>p. Some [\<lparr>gc_question = ''Q1'', gc_answer = ''A1''\<rparr>,
        \<lparr>gc_question = ''Q2'', gc_answer = ''A2''\<rparr>, \<lparr>gc_question = ''Q3'', gc_answer = ''A3''\<rparr>]),
     inexact_days = (\<lambda>x. NaN), inexact_times = (\<lambda>a h. NaN), inexact_weeks = (\<lambda>a. NaN)\<rparr>"

definition plan_row_7 :: study_plan_row where
  "plan_row_7 = \<lparr>sp_id = 7, course_name = ''Algebra'', deadline = ''2030-01-08'',
     hours_per_day = 2, days_until = Num 7, total_hours = Num 14,
     plan_json = [\<lparr>week = 1, topic = ''Groups'', hours = 14,
                   tasks = [''Read chapter 1'', ''Exercises'', ''Quiz'']\<rparr>],
     progress = 100, completed = False, sp_created_at = 1000\<rparr>"

definition db_one_plan :: db where
  "db_one_plan = empty_db\<lparr>study_plans := [plan_row_7]\<rparr>"

definition request_five_cards :: flashcards_request where
  "request_five_cards = \<lparr>gf_topic = Some ''Ring  theory'', gf_count = Some 5\<rparr>"

definition db_three_cards :: db where
  "db_three_cards = snd (generate_flashcards env_demo request_five_cards empty_db)"

definition db_orphans :: db where
  "db_orphans = snd (delete_flashcard NoForeignKey 1 db_three_cards)"

definition request_week :: plan_request where
  "request_week = \<lparr>gp_courseName = Some ''Algebra'', gp_deadline = Some ''1970-01-08'',
     gp_hoursPerDay = Some 2\<rparr>"




definition plan_week :: study_plan_row where
  "plan_week = \<lparr>sp_id = 1, course_name = ''Algebra'', deadline = ''1970-01-08'',
     hours_per_day = 2, days_until = Num 7, total_hours = Num 14,
     plan_json = [\<lparr>week = 1, topic = ''Groups'', hours = 14,
                   tasks = [''Read chapter 1'', ''Exercises'', ''Quiz'']\<rparr>],
     progress = 0, completed = False, sp_created_at = 1000\<rparr>"

definition db_week :: db where
  "db_week = empty_db\<lparr>study_plans := [plan_week], next_plan_id := 2\<rparr>"

definition view_three_cards :: flashcard_set_view where
  "view_three_cards = \<lparr>fsv_id = 1, fsv_topic = ''Ring  theory'',
     cards = [\<lparr>cv_id = 1, cv_question = ''Q1'', cv_answer = ''A1'', cv_known = False\<rparr>,
        \<lparr>cv_id = 2, cv_question = ''Q2'', cv_answer = ''A2'', cv_known = False\<rparr>,
        \<lparr>cv_id = 3, cv_question = ''Q3'', cv_answer = ''A3'', cv_known = False\<rparr>],
     createdAt = 1000, knownCount = 0, totalCount = 3\<rparr>"

section \<open>Properties\<close>

subsection \<open>Statements that match no row\<close>

lemma sql_update_no_match: "\<forall>r \<in> set rows. \<not> wh r \<Longrightarrow> sql_update wh st rows = rows"
  by (induction rows) (simp_all add: sql_update_def)

lemma sql_select_no_match: "\<forall>r \<in> set rows. \<not> wh r \<Longrightarrow> sql_select wh rows = []"
  by (induction rows) (simp_all add: sql_select_def)

lemma sql_select_empty_iff: "sql_select wh rows = [] \<longleftrightarrow> (\<forall>r \<in> set rows. \<not> wh r)"
  by (simp add: sql_select_def filter_empty_conv)

lemma sql_update_length [simp]: "length (sql_update wh st rows) = length rows"
  by (simp add: sql_update_def)

lemma sql_update_nth:
  "i < length rows \<Longrightarrow>
     sql_update wh st rows ! i = (if wh (rows ! i) then st (rows ! i) else rows ! i)"
  by (simp add: sql_update_def)

subsection \<open>The study plan routes\<close>



text \<open>What the handler does with a deadline the \<open>Date\<close> constructor rejects.\<close>

lemma generate_study_plan_invalid_date:
  assumes "truthy_string (gp_courseName req)" "truthy_string (gp_deadline req)"
    "truthy_number (gp_hoursPerDay req)"
    and "date_value e (the (gp_deadline req)) = None"
  shows "generate_study_plan e req d =
    (case generate_plan e \<lparr>pp_daysUntil = NaN, pp_courseName = the (gp_courseName req),
             pp_weeks = NaN, pp_totalHours = NaN, pp_hoursPerDay = the (gp_hoursPerDay req)\<rparr> of
       None \<Rightarrow>
         (Inl (ServerError ''Failed to generate study plan from AI. Check API key/model.''), d)
     | Some planData \<Rightarrow>
         (Inr \<lparr>sp_id = next_plan_id d, course_name = the (gp_courseName req),
                deadline = the (gp_deadline req), hours_per_day = the (gp_hoursPerDay req),
                days_until = NaN, total_hours = NaN, plan_json = planData, progress = 0,
                completed = False, sp_created_at = now e\<rparr>,
          d\<lparr>study_plans := study_plans d @ [\<lparr>sp_id = next_plan_id d,
                course_name = the (gp_courseName req),
                deadline = the (gp_deadline req), hours_per_day = the (gp_hoursPerDay req),
                days_until = NaN, total_hours = NaN, plan_json = planData, progress = 0,
                completed = False, sp_created_at = now e\<rparr>],
            next_plan_id := next_plan_id d + 1\<rparr>))"
  using assms
  by (simp add: generate_study_plan_def days_between_def js_times_def js_weeks_def
      js_le_zero_def Let_def split: option.splits)


lemma generate_week:
  "generate_study_plan env_demo request_week empty_db = (Inr plan_week, db_week)"
  by (simp add: generate_study_plan_def env_demo_def request_week_def empty_db_def
      plan_week_def db_week_def truthy_string_def truthy_number_def ceil_div_def
      ms_per_day_def days_between_def js_times_def js_weeks_def js_le_zero_def
      exact_quotient_def safe_integer_def Let_def)



text \<open>
  Claim C10. An update-study-progress call whose id is the id of no study plan answers
  404 "Study plan not found" and leaves the whole store as it was: the \<open>UPDATE\<close> that runs
  before the existence check matches no row.
\<close>

theorem update_study_progress_missing:
  assumes "\<forall>r \<in> set (study_plans d). sp_id r \<noteq> pr_id req"
  shows "update_study_progress req d = (Inl (NotFound ''Study plan not found''), d)"
proof -
  have upd: "sql_update (\<lambda>r. sp_id r = pr_id req)
               (\<lambda>r. r\<lparr>progress := pr_progress req, completed := pr_completed req\<rparr>)
               (study_plans d) = study_plans d"
    using assms by (intro sql_update_no_match) simp
  have sel: "sql_select (\<lambda>r. sp_id r = pr_id req) (study_plans d) = []"
    using assms by (intro sql_select_no_match) simp
  show ?thesis
    by (simp add: update_study_progress_def upd sel)
qed

theorem update_study_progress_missing_witness:
  "map sp_id (study_plans db_one_plan) = [7]
   \<and> update_study_progress \<lparr>pr_id = 8, pr_progress = 50, pr_completed = True\<rparr> db_one_plan
      = (Inl (NotFound ''Study plan not found''), db_one_plan)"
  using update_study_progress_missing
    [of db_one_plan "\<lparr>pr_id = 8, pr_progress = 50, pr_completed = True\<rparr>"]
  by (simp add: db_one_plan_def plan_row_7_def)

subsection \<open>The PDF upload route\<close>

text \<open>
  Claim C9. Two upload-pdf requests with the same fileName answer with the same title
  and content and persist rows with the same title, content and file name, whatever
  their fileContent, the clock and the store; on the same store and clock the whole
  response and the whole new store are equal.
\<close>

theorem upload_pdf_ignores_content:
  "map_sum id (\<lambda>n. (nv_title n, nv_content n))
       (fst (upload_pdf e1 \<lparr>up_fileName = f, up_fileContent = c1\<rparr> d1))
     = map_sum id (\<lambda>n. (nv_title n, nv_content n))
       (fst (upload_pdf e2 \<lparr>up_fileName = f, up_fileContent = c2\<rparr> d2))
   \<and> (\<exists>n1 n2.
        notes (snd (upload_pdf e1 \<lparr>up_fileName = f, up_fileContent = c1\<rparr> d1)) = notes d1 @ [n1]
        \<and> notes (snd (upload_pdf e2 \<lparr>up_fileName = f, up_fileContent = c2\<rparr> d2)) = notes d2 @ [n2]
        \<and> title n1 = title n2 \<and> content n1 = content n2 \<and> file_name n1 = file_name n2)
   \<and> upload_pdf e \<lparr>up_fileName = f, up_fileContent = c1\<rparr> d
       = upload_pdf e \<lparr>up_fileName = f, up_fileContent = c2\<rparr> d"
  by (simp add: upload_pdf_def Let_def)

subsection \<open>Generating a flashcard set\<close>

lemma insert_cards_closed:
  "insert_cards sid gs (cs, d) =
     (cs @ new_card_views (next_card_id d) gs,
      d\<lparr>flashcards := flashcards d @ new_card_rows sid (next_card_id d) gs,
        next_card_id := next_card_id d + int (length gs)\<rparr>)"
proof (induction gs arbitrary: cs d)
  case Nil
  show ?case by simp
next
  case (Cons g gs)
  show ?case by (simp add: Cons.IH add.assoc)
qed

lemma length_new_card_views [simp]: "length (new_card_views n gs) = length gs"
  by (induction gs arbitrary: n) simp_all

lemma length_new_card_rows [simp]: "length (new_card_rows sid n gs) = length gs"
  by (induction gs arbitrary: n) simp_all

lemma new_card_views_unknown: "c \<in> set (new_card_views n gs) \<Longrightarrow> \<not> cv_known c"
  by (induction gs arbitrary: n) auto

lemma new_card_rows_unknown:
  "c \<in> set (new_card_rows sid n gs) \<Longrightarrow> \<not> known c \<and> set_id c = sid"
  by (induction gs arbitrary: n) auto

lemma new_card_views_text:
  "map cv_question (new_card_views n gs) = map gc_question gs"
  "map cv_answer (new_card_views n gs) = map gc_answer gs"
  by (induction gs arbitrary: n) simp_all

lemma new_card_rows_text:
  "map question (new_card_rows sid n gs) = map gc_question gs"
  "map answer (new_card_rows sid n gs) = map gc_answer gs"
  by (induction gs arbitrary: n) simp_all

lemma generate_flashcards_closed:
  assumes "generate_cards e (cards_prompt_of req) = Some gs"
  shows "generate_flashcards e req d =
    (Inr \<lparr>fsv_id = next_set_id d, fsv_topic = topic_or_default (gf_topic req),
           cards = new_card_views (next_card_id d) gs, createdAt = now e, knownCount = 0,
           totalCount = length gs\<rparr>,
     d\<lparr>flashcard_sets := flashcard_sets d @ [\<lparr>fs_id = next_set_id d,
            fs_topic = topic_or_default (gf_topic req), total_count = length gs,
            known_count = 0, fs_created_at = now e\<rparr>],
       next_set_id := next_set_id d + 1,
       flashcards := flashcards d @ new_card_rows (next_set_id d) (next_card_id d) gs,
       next_card_id := next_card_id d + int (length gs)\<rparr>)"
  using assms by (simp add: generate_flashcards_def Let_def insert_cards_closed)

lemma db_three_cards_eq:
  "db_three_cards = \<lparr>study_plans = [], notes = [],
     flashcard_sets = [\<lparr>fs_id = 1, fs_topic = ''Ring  theory'', total_count = 3, known_count = 0,
        fs_created_at = 1000\<rparr>],
     flashcards = [\<lparr>fc_id = 1, set_id = 1, question = ''Q1'', answer = ''A1'', known = False\<rparr>,
        \<lparr>fc_id = 2, set_id = 1, question = ''Q2'', answer = ''A2'', known = False\<rparr>,
        \<lparr>fc_id = 3, set_id = 1, question = ''Q3'', answer = ''A3'', known = False\<rparr>],
     chat_history = [], next_plan_id = 1, next_note_id = 1, next_set_id = 2,
     next_card_id = 4, next_chat_id = 1\<rparr>"
  by (simp add: db_three_cards_def request_five_cards_def generate_flashcards_def env_demo_def
      empty_db_def cards_prompt_of_def topic_or_default_def truthy_number_def
      truthy_string_def Let_def)

lemma db_orphans_eq:
  "db_orphans = \<lparr>study_plans = [], notes = [], flashcard_sets = [],
     flashcards = [\<lparr>fc_id = 1, set_id = 1, question = ''Q1'', answer = ''A1'', known = False\<rparr>,
        \<lparr>fc_id = 2, set_id = 1, question = ''Q2'', answer = ''A2'', known = False\<rparr>,
        \<lparr>fc_id = 3, set_id = 1, question = ''Q3'', answer = ''A3'', known = False\<rparr>],
     chat_history = [], next_plan_id = 1, next_note_id = 1, next_set_id = 2,
     next_card_id = 4, next_chat_id = 1\<rparr>"
  by (simp add: db_orphans_def db_three_cards_eq delete_flashcard_def
      sql_delete_flashcard_set_def sql_delete_def sql_select_def Let_def)

text \<open>
  Claim C1. When the generation service answers an array \<open>gs\<close> to the prompt of a
  generate-flashcards request, whatever count the request asked for, the handler
  succeeds, the row appended to \<open>flashcard_sets\<close> has \<open>total_count = length gs\<close> and
  \<open>known_count = 0\<close>, and the set it answers with has \<open>totalCount = length gs\<close>,
  \<open>knownCount = 0\<close>, one card per element of \<open>gs\<close> with its question and answer, and no
  card marked known.
\<close>

theorem generate_flashcards_total_count:
  assumes "generate_cards e (cards_prompt_of req) = Some gs"
  shows "\<exists>v d'. generate_flashcards e req d = (Inr v, d')
     \<and> flashcard_sets d' = flashcard_sets d @ [\<lparr>fs_id = fsv_id v, fs_topic = fsv_topic v,
           total_count = length gs, known_count = 0, fs_created_at = now e\<rparr>]
     \<and> totalCount v = length gs \<and> length (cards v) = length gs
     \<and> knownCount v = 0 \<and> (\<forall>c \<in> set (cards v). \<not> cv_known c)
     \<and> map cv_question (cards v) = map gc_question gs
     \<and> map cv_answer (cards v) = map gc_answer gs"
  by (simp add: generate_flashcards_closed [OF assms] new_card_views_unknown
      new_card_views_text)

text \<open>The scenario of the specification: five cards asked for, three generated.\<close>

theorem generate_flashcards_total_count_witness:
  "cp_cardCount (cards_prompt_of request_five_cards) = 5
   \<and> map_option length (generate_cards env_demo (cards_prompt_of request_five_cards)) = Some 3
   \<and> map total_count (flashcard_sets (snd (generate_flashcards env_demo request_five_cards empty_db))) = [3]
   \<and> map_sum id totalCount (fst (generate_flashcards env_demo request_five_cards empty_db)) = Inr 3
   \<and> map_sum id knownCount (fst (generate_flashcards env_demo request_five_cards empty_db)) = Inr 0"
proof -
  have gen: "generate_cards env_demo (cards_prompt_of request_five_cards)
      = Some [\<lparr>gc_question = ''Q1'', gc_answer = ''A1''\<rparr>,
          \<lparr>gc_question = ''Q2'', gc_answer = ''A2''\<rparr>, \<lparr>gc_question = ''Q3'', gc_answer = ''A3''\<rparr>]"
    by (simp add: env_demo_def)
  have prompt: "cp_cardCount (cards_prompt_of request_five_cards) = 5"
    by (simp add: cards_prompt_of_def request_five_cards_def truthy_number_def)
  from generate_flashcards_total_count [OF gen, of empty_db]
  obtain v d' where "generate_flashcards env_demo request_five_cards empty_db = (Inr v, d')"
    and "flashcard_sets d' = flashcard_sets empty_db @ [\<lparr>fs_id = fsv_id v, fs_topic = fsv_topic v,
           total_count = 3, known_count = 0, fs_created_at = now env_demo\<rparr>]"
    and "totalCount v = 3" and "knownCount v = 0"
    by auto
  with gen prompt show ?thesis
    by (simp add: empty_db_def)
qed

subsection \<open>Saving the status of a card\<close>

lemma snd_save_flashcard_status:
  "snd (save_flashcard_status req d) =
     d\<lparr>flashcards := write_known req (flashcards d),
       flashcard_sets :=
         write_count (st_setId req) (count_known (st_setId req) (write_known req (flashcards d)))
           (flashcard_sets d)\<rparr>"
proof (cases "sql_select (\<lambda>s. fs_id s = st_setId req) (flashcard_sets d)")
  case Nil
  then have "\<forall>s \<in> set (flashcard_sets d). \<not> fs_id s = st_setId req"
    by (simp add: sql_select_empty_iff)
  then have "write_count (st_setId req) n (flashcard_sets d) = flashcard_sets d" for n
    unfolding write_count_def by (rule sql_update_no_match)
  with Nil show ?thesis
    by (simp add: save_flashcard_status_def Let_def write_known_def)
next
  case (Cons s ss)
  then show ?thesis
    by (simp add: save_flashcard_status_def Let_def write_known_def write_count_def
        count_known_def)
qed

lemma fst_save_flashcard_status:
  "fst (save_flashcard_status req d) =
     (case sql_select (\<lambda>s. fs_id s = st_setId req) (flashcard_sets d) of
        s # _ \<Rightarrow> Inr \<lparr>fsv_id = fs_id s, fsv_topic = fs_topic s,
                   cards = map card_view_of
                     (sql_select (\<lambda>c. set_id c = st_setId req) (write_known req (flashcards d))),
                   createdAt = fs_created_at s,
                   knownCount = count_known (st_setId req) (write_known req (flashcards d)),
                   totalCount = total_count s\<rparr>
      | [] \<Rightarrow> Inl (NotFound ''Flashcard set not found''))"
  by (simp add: save_flashcard_status_def Let_def write_known_def count_known_def
      split: list.splits)

lemma count_known_write_known_other:
  "sid \<noteq> st_setId req \<Longrightarrow> count_known sid (write_known req cs) = count_known sid cs"
  by (induction cs) (auto simp: count_known_def write_known_def sql_update_def sql_select_def)

lemma write_count_iff:
  "s' \<in> set (write_count sid n ss) \<longleftrightarrow>
     (\<exists>s \<in> set ss. s' = (if fs_id s = sid then s\<lparr>known_count := n\<rparr> else s))"
  by (induction ss) (auto simp: write_count_def sql_update_def)

text \<open>A call recounts its own set, whatever the count was before.\<close>

lemma save_flashcard_status_recounts:
  "known_count_ok (st_setId req) (snd (save_flashcard_status req d))"
  by (auto simp: known_count_ok_def snd_save_flashcard_status write_count_iff)

lemma save_flashcard_status_preserves:
  assumes "known_count_ok sid d"
  shows "known_count_ok sid (snd (save_flashcard_status req d))"
proof (cases "sid = st_setId req")
  case True
  then show ?thesis by (simp add: save_flashcard_status_recounts)
next
  case False
  with assms show ?thesis
    by (auto simp: known_count_ok_def snd_save_flashcard_status write_count_iff
        count_known_write_known_other split: if_splits)
qed

lemma run_status_calls_preserves:
  "known_count_ok sid d \<Longrightarrow> known_count_ok sid (run_status_calls reqs d)"
  unfolding run_status_calls_def
  by (induction reqs arbitrary: d) (simp_all add: save_flashcard_status_preserves)

lemma run_status_calls_snoc:
  "run_status_calls (reqs @ [r]) d = snd (save_flashcard_status r (run_status_calls reqs d))"
  by (simp add: run_status_calls_def)

lemma write_known_idem: "write_known req (write_known req cs) = write_known req cs"
  by (induction cs) (simp_all add: write_known_def sql_update_def)

lemma write_count_idem: "write_count sid n (write_count sid n ss) = write_count sid n ss"
  by (induction ss) (simp_all add: write_count_def sql_update_def)

lemma sql_select_write_count:
  "sql_select (\<lambda>s. fs_id s = sid) (write_count sid n ss)
     = map (\<lambda>s. s\<lparr>known_count := n\<rparr>) (sql_select (\<lambda>s. fs_id s = sid) ss)"
  by (induction ss) (simp_all add: write_count_def sql_update_def sql_select_def)

lemma snd_save_idem:
  "snd (save_flashcard_status r (snd (save_flashcard_status r d)))
     = snd (save_flashcard_status r d)"
  by (simp add: snd_save_flashcard_status write_known_idem write_count_idem)

lemma fst_save_idem:
  "fst (save_flashcard_status r (snd (save_flashcard_status r d)))
     = fst (save_flashcard_status r d)"
  by (simp add: fst_save_flashcard_status snd_save_flashcard_status write_known_idem
      sql_select_write_count split: list.splits)

lemma save_flashcard_status_idem:
  "save_flashcard_status r (snd (save_flashcard_status r d)) = save_flashcard_status r d"
  by (rule prod_eqI) (simp_all add: fst_save_idem snd_save_idem)

text \<open>A set as generate-flashcards creates it satisfies the invariant, its id being new.\<close>

lemma generate_flashcards_known_count_ok:
  assumes gen: "generate_cards e (cards_prompt_of req) = Some gs"
    and fresh: "\<forall>c \<in> set (flashcards d). set_id c \<noteq> next_set_id d"
      "\<forall>s \<in> set (flashcard_sets d). fs_id s \<noteq> next_set_id d"
  shows "known_count_ok (next_set_id d) (snd (generate_flashcards e req d))"
proof -
  have old: "filter (\<lambda>c. set_id c = next_set_id d \<and> known c) (flashcards d) = []"
    using fresh(1) by (simp add: filter_empty_conv)
  have new: "filter (\<lambda>c. set_id c = next_set_id d \<and> known c)
      (new_card_rows (next_set_id d) (next_card_id d) gs) = []"
    by (auto simp: filter_empty_conv dest: new_card_rows_unknown)
  show ?thesis
    using fresh(2)
    by (auto simp: generate_flashcards_closed [OF gen] known_count_ok_def count_known_def
        sql_select_def old new)
qed

lemma flashcards_inv_known_count_ok: "flashcards_inv d \<Longrightarrow> known_count_ok sid d"
  by (auto simp: flashcards_inv_def known_count_ok_def)

lemma flashcards_inv_empty: "flashcards_inv empty_db"
  by (simp add: flashcards_inv_def empty_db_def)

lemma count_known_append:
  "count_known sid (xs @ ys) = count_known sid xs + count_known sid ys"
  by (simp add: count_known_def sql_select_def)

lemma count_known_new_rows:
  "count_known sid (new_card_rows sid' n gs) = 0"
  by (auto simp: count_known_def sql_select_def filter_empty_conv dest: new_card_rows_unknown)

lemma count_known_fresh:
  "\<forall>c \<in> set cs. set_id c < sid \<Longrightarrow> count_known sid cs = 0"
  by (auto simp: count_known_def sql_select_def filter_empty_conv)

lemma flashcards_inv_generate:
  assumes "flashcards_inv d"
  shows "flashcards_inv (snd (generate_flashcards e req d))"
proof (cases "generate_cards e (cards_prompt_of req)")
  case None
  with assms show ?thesis by (simp add: generate_flashcards_def)
next
  case (Some gs)
  from assms have old: "\<forall>s \<in> set (flashcard_sets d). fs_id s < next_set_id d"
    "\<forall>c \<in> set (flashcards d). set_id c < next_set_id d"
    "\<forall>s \<in> set (flashcard_sets d). known_count s = count_known (fs_id s) (flashcards d)"
    by (simp_all add: flashcards_inv_def)
  have new: "\<forall>c \<in> set (new_card_rows (next_set_id d) (next_card_id d) gs). set_id c = next_set_id d"
    by (simp add: new_card_rows_unknown)
  show ?thesis
    unfolding generate_flashcards_closed [OF Some] flashcards_inv_def
    using old new
    by (auto simp: count_known_append count_known_new_rows count_known_fresh)
qed

lemma flashcards_inv_save:
  assumes "flashcards_inv d"
  shows "flashcards_inv (snd (save_flashcard_status req d))"
proof -
  have ok: "known_count_ok sid (snd (save_flashcard_status req d))" for sid
    using assms by (intro save_flashcard_status_preserves flashcards_inv_known_count_ok)
  have cards: "\<forall>c \<in> set (write_known req (flashcards d)). set_id c < next_set_id d"
    using assms by (auto simp: flashcards_inv_def write_known_def sql_update_def)
  have sets: "\<forall>s \<in> set (flashcard_sets (snd (save_flashcard_status req d))). fs_id s < next_set_id d"
    using assms
    by (fastforce simp: flashcards_inv_def snd_save_flashcard_status write_count_iff
        split: if_splits)
  from ok have "\<forall>s \<in> set (flashcard_sets (snd (save_flashcard_status req d))).
      known_count s = count_known (fs_id s) (flashcards (snd (save_flashcard_status req d)))"
    by (auto simp: known_count_ok_def)
  with cards sets show ?thesis
    by (simp add: flashcards_inv_def snd_save_flashcard_status)
qed

lemma count_known_delete_other:
  "sid \<noteq> i \<Longrightarrow> count_known sid (sql_delete (\<lambda>c. set_id c = i) cs) = count_known sid cs"
  by (induction cs) (auto simp: count_known_def sql_delete_def sql_select_def)

lemma set_sql_delete: "set (sql_delete wh rows) = {r \<in> set rows. \<not> wh r}"
  by (simp add: sql_delete_def)

lemma flashcards_inv_delete:
  assumes "flashcards_inv d"
  shows "flashcards_inv (snd (delete_flashcard fk i d))"
  using assms
  by (cases fk)
     (auto simp: flashcards_inv_def delete_flashcard_def sql_delete_flashcard_set_def Let_def
        count_known_delete_other set_sql_delete)

lemma flashcards_inv_run_calls:
  "flashcards_inv d \<Longrightarrow> flashcards_inv (run_calls fk cs d)"
  unfolding run_calls_def
  by (induction cs arbitrary: d)
     (auto simp: run_call_def flashcards_inv_generate flashcards_inv_save flashcards_inv_delete
       split: flashcard_call.splits)

lemma generate_three_cards:
  "generate_flashcards env_demo request_five_cards empty_db = (Inr view_three_cards, db_three_cards)"
  by (simp add: db_three_cards_def view_three_cards_def request_five_cards_def
      generate_flashcards_def env_demo_def
      empty_db_def cards_prompt_of_def topic_or_default_def truthy_number_def
      truthy_string_def Let_def)

text \<open>
  Claim C2. In the store that any sequence of generate-flashcards, save-flashcard-status
  and delete calls leaves, starting from the empty store, \<open>known_count\<close> of every set
  equals the number of its cards that are known. From any store in which a set has
  this property, it has it after any sequence of save-flashcard-status calls, on this
  set or on others. And a call that repeats the call just made answers the same and
  leaves the same store.
\<close>

theorem known_count_invariant:
  "known_count_ok sid (run_calls fk cs empty_db)
   \<and> (known_count_ok sid d \<longrightarrow> known_count_ok sid (run_status_calls reqs d))
   \<and> save_flashcard_status r (run_status_calls (reqs @ [r]) d)
       = save_flashcard_status r (run_status_calls reqs d)"
  by (simp add: flashcards_inv_known_count_ok flashcards_inv_run_calls flashcards_inv_empty
      run_status_calls_preserves run_status_calls_snoc save_flashcard_status_idem)

theorem known_count_invariant_witness:
  "map known_count (flashcard_sets (run_calls NoForeignKey
        [GenerateFlashcards env_demo request_five_cards,
         SaveFlashcardStatus \<lparr>st_setId = 1, st_cardId = 2, st_known = True\<rparr>,
         SaveFlashcardStatus \<lparr>st_setId = 1, st_cardId = 3, st_known = True\<rparr>,
         SaveFlashcardStatus \<lparr>st_setId = 1, st_cardId = 2, st_known = False\<rparr>] empty_db)) = [1]
   \<and> map known (flashcards (run_calls NoForeignKey
        [GenerateFlashcards env_demo request_five_cards,
         SaveFlashcardStatus \<lparr>st_setId = 1, st_cardId = 2, st_known = True\<rparr>,
         SaveFlashcardStatus \<lparr>st_setId = 1, st_cardId = 3, st_known = True\<rparr>,
         SaveFlashcardStatus \<lparr>st_setId = 1, st_cardId = 2, st_known = False\<rparr>] empty_db))
       = [False, False, True]
   \<and> known_count_ok 1 db_three_cards
   \<and> run_status_calls
        [\<lparr>st_setId = 1, st_cardId = 2, st_known = True\<rparr>,
         \<lparr>st_setId = 1, st_cardId = 2, st_known = True\<rparr>] db_three_cards
       = run_status_calls [\<lparr>st_setId = 1, st_cardId = 2, st_known = True\<rparr>] db_three_cards"
proof -
  have ok: "known_count_ok 1 db_three_cards"
    by (simp add: known_count_ok_def count_known_def sql_select_def db_three_cards_eq)
  note known_count_invariant
      [of 1 NoForeignKey
          "[GenerateFlashcards env_demo request_five_cards,
            SaveFlashcardStatus \<lparr>st_setId = 1, st_cardId = 2, st_known = True\<rparr>,
            SaveFlashcardStatus \<lparr>st_setId = 1, st_cardId = 3, st_known = True\<rparr>,
            SaveFlashcardStatus \<lparr>st_setId = 1, st_cardId = 2, st_known = False\<rparr>]"
          db_three_cards
          "[\<lparr>st_setId = 1, st_cardId = 2, st_known = True\<rparr>]"
          "\<lparr>st_setId = 1, st_cardId = 2, st_known = True\<rparr>"]
  with ok show ?thesis
    by (simp add: run_calls_def run_call_def generate_three_cards db_three_cards_eq
        run_status_calls_def save_flashcard_status_def sql_update_def sql_select_def Let_def)
qed

lemma references_ok_empty: "references_ok empty_db"
  by (simp add: references_ok_def empty_db_def)

lemma references_ok_generate:
  assumes "references_ok d"
  shows "references_ok (snd (generate_flashcards e req d))"
proof (cases "generate_cards e (cards_prompt_of req)")
  case None
  with assms show ?thesis by (simp add: generate_flashcards_def)
next
  case (Some gs)
  from assms show ?thesis
    unfolding generate_flashcards_closed [OF Some] references_ok_def
    by (auto dest: new_card_rows_unknown)
qed

lemma set_id_write_known:
  "set_id ` set (write_known req cs) = set_id ` set cs"
  by (induction cs) (auto simp: write_known_def sql_update_def)

lemma fs_id_write_count:
  "fs_id ` set (write_count sid n ss) = fs_id ` set ss"
  by (induction ss) (auto simp: write_count_def sql_update_def)

lemma references_ok_alt:
  "references_ok d \<longleftrightarrow> set_id ` set (flashcards d) \<subseteq> fs_id ` set (flashcard_sets d)"
  unfolding references_ok_def by (auto simp: image_iff subset_iff) metis+

lemma references_ok_save:
  "references_ok d \<Longrightarrow> references_ok (snd (save_flashcard_status req d))"
  by (simp add: references_ok_alt snd_save_flashcard_status set_id_write_known fs_id_write_count)

lemma references_ok_delete:
  assumes "references_ok d" "fk \<noteq> NoForeignKey"
  shows "references_ok (snd (delete_flashcard fk i d))"
proof (cases fk)
  case NoForeignKey
  with assms show ?thesis by simp
next
  case Restrict
  show ?thesis
  proof (cases "sql_select (\<lambda>s. fs_id s = i) (flashcard_sets d) \<noteq> []
      \<and> sql_select (\<lambda>c. set_id c = i) (flashcards d) \<noteq> []")
    case True
    with assms Restrict show ?thesis
      by (simp add: delete_flashcard_def sql_delete_flashcard_set_def Let_def)
  next
    case False
    with assms(1) Restrict show ?thesis
      by (fastforce simp: delete_flashcard_def sql_delete_flashcard_set_def Let_def
          references_ok_def set_sql_delete sql_select_def filter_empty_conv)
  qed
next
  case Cascade
  with assms(1) show ?thesis
    by (fastforce simp: delete_flashcard_def sql_delete_flashcard_set_def Let_def
        references_ok_def set_sql_delete sql_select_def filter_empty_conv)
qed

lemma references_ok_run_calls:
  "references_ok d \<Longrightarrow> fk \<noteq> NoForeignKey \<Longrightarrow> references_ok (run_calls fk cs d)"
  unfolding run_calls_def
  by (induction cs arbitrary: d)
     (auto simp: run_call_def references_ok_generate references_ok_save references_ok_delete
       split: flashcard_call.splits)

lemma save_flashcard_status_missing_references_ok:
  assumes "references_ok d" "\<forall>s \<in> set (flashcard_sets d). fs_id s \<noteq> st_setId req"
  shows "save_flashcard_status req d = (Inl (NotFound ''Flashcard set not found''), d)"
proof -
  from assms have none: "\<forall>c \<in> set (flashcards d). \<not> (fc_id c = st_cardId req \<and> set_id c = st_setId req)"
    by (fastforce simp: references_ok_def)
  from assms(2) have sel: "sql_select (\<lambda>s. fs_id s = st_setId req) (flashcard_sets d) = []"
    by (simp add: sql_select_empty_iff)
  from assms(2) have cnt: "write_count (st_setId req) n (flashcard_sets d) = flashcard_sets d" for n
    unfolding write_count_def by (intro sql_update_no_match) simp
  from none have wk: "write_known req (flashcards d) = flashcards d"
    unfolding write_known_def by (intro sql_update_no_match) simp
  show ?thesis
    by (rule prod_eqI) (simp_all add: fst_save_flashcard_status sel snd_save_flashcard_status cnt wk)
qed

text \<open>
  Claim C5, as the code has it. When no flashcard set has the setId of a
  save-flashcard-status call, the call answers 404 "Flashcard set not found" and no table
  but \<open>flashcards\<close> changes. The card write runs before the existence check: in every
  call the rows of \<open>flashcards\<close> keep their places, a row that has both the cardId and
  the setId of the call gets the known flag of the call, and every other row is
  unchanged. So a card of another set is never modified, and the store is unchanged when
  no row has both ids. Under a schema with a foreign key on \<open>flashcards.set_id\<close>,
  restricting or cascading, no row references a missing set in any store that
  generate, save and delete calls reach from the empty one, and a call on a missing set
  leaves that store as it was.
\<close>

theorem save_flashcard_status_missing_set:
  "((\<forall>s \<in> set (flashcard_sets d). fs_id s \<noteq> st_setId req) \<longrightarrow>
      fst (save_flashcard_status req d) = Inl (NotFound ''Flashcard set not found'')
      \<and> snd (save_flashcard_status req d)
          = d\<lparr>flashcards := flashcards (snd (save_flashcard_status req d))\<rparr>
      \<and> ((\<forall>c \<in> set (flashcards d). \<not> (fc_id c = st_cardId req \<and> set_id c = st_setId req)) \<longrightarrow>
           snd (save_flashcard_status req d) = d))
   \<and> length (flashcards (snd (save_flashcard_status req d))) = length (flashcards d)
   \<and> (\<forall>i < length (flashcards d).
        flashcards (snd (save_flashcard_status req d)) ! i =
          (if fc_id (flashcards d ! i) = st_cardId req \<and> set_id (flashcards d ! i) = st_setId req
           then (flashcards d ! i)\<lparr>known := st_known req\<rparr> else flashcards d ! i))
   \<and> (fk \<noteq> NoForeignKey
        \<and> (\<forall>s \<in> set (flashcard_sets (run_calls fk cs empty_db)). fs_id s \<noteq> st_setId req) \<longrightarrow>
        save_flashcard_status req (run_calls fk cs empty_db)
          = (Inl (NotFound ''Flashcard set not found''), run_calls fk cs empty_db))"
proof -
  have rows: "length (flashcards (snd (save_flashcard_status req d))) = length (flashcards d)"
    "\<forall>i < length (flashcards d).
        flashcards (snd (save_flashcard_status req d)) ! i =
          (if fc_id (flashcards d ! i) = st_cardId req \<and> set_id (flashcards d ! i) = st_setId req
           then (flashcards d ! i)\<lparr>known := st_known req\<rparr> else flashcards d ! i)"
    by (simp_all add: snd_save_flashcard_status write_known_def sql_update_nth)
  have missing: "fst (save_flashcard_status req d) = Inl (NotFound ''Flashcard set not found'')
      \<and> snd (save_flashcard_status req d)
          = d\<lparr>flashcards := flashcards (snd (save_flashcard_status req d))\<rparr>
      \<and> ((\<forall>c \<in> set (flashcards d). \<not> (fc_id c = st_cardId req \<and> set_id c = st_setId req)) \<longrightarrow>
           snd (save_flashcard_status req d) = d)"
    if none: "\<forall>s \<in> set (flashcard_sets d). fs_id s \<noteq> st_setId req"
  proof -
    from none have sel: "sql_select (\<lambda>s. fs_id s = st_setId req) (flashcard_sets d) = []"
      by (simp add: sql_select_empty_iff)
    from none have cnt: "write_count (st_setId req) n (flashcard_sets d) = flashcard_sets d" for n
      unfolding write_count_def by (intro sql_update_no_match) simp
    have "write_known req (flashcards d) = flashcards d"
      if "\<forall>c \<in> set (flashcards d). \<not> (fc_id c = st_cardId req \<and> set_id c = st_setId req)"
      unfolding write_known_def using that by (intro sql_update_no_match) simp
    then show ?thesis
      by (simp add: fst_save_flashcard_status sel snd_save_flashcard_status cnt)
  qed
  have reached: "save_flashcard_status req (run_calls fk cs empty_db)
      = (Inl (NotFound ''Flashcard set not found''), run_calls fk cs empty_db)"
    if "fk \<noteq> NoForeignKey"
      "\<forall>s \<in> set (flashcard_sets (run_calls fk cs empty_db)). fs_id s \<noteq> st_setId req"
    using that references_ok_run_calls [OF references_ok_empty, of fk cs]
    by (intro save_flashcard_status_missing_references_ok) simp_all
  from rows missing reached show ?thesis by blast
qed

text \<open>
  On the store with the three orphans, a call for a card id that no row has; and under a
  cascading foreign key, the call for set 1 and card 2 after set 1 was deleted.
\<close>

theorem save_flashcard_status_missing_set_witness:
  "flashcard_sets db_orphans = []
   \<and> fst (save_flashcard_status \<lparr>st_setId = 1, st_cardId = 9, st_known = True\<rparr> db_orphans)
       = Inl (NotFound ''Flashcard set not found'')
   \<and> snd (save_flashcard_status \<lparr>st_setId = 1, st_cardId = 9, st_known = True\<rparr> db_orphans)
       = db_orphans
   \<and> flashcard_sets (run_calls Cascade
        [GenerateFlashcards env_demo request_five_cards, DeleteFlashcard 1] empty_db) = []
   \<and> flashcards (run_calls Cascade
        [GenerateFlashcards env_demo request_five_cards, DeleteFlashcard 1] empty_db) = []
   \<and> save_flashcard_status \<lparr>st_setId = 1, st_cardId = 2, st_known = True\<rparr>
        (run_calls Cascade [GenerateFlashcards env_demo request_five_cards, DeleteFlashcard 1]
           empty_db)
       = (Inl (NotFound ''Flashcard set not found''),
          run_calls Cascade [GenerateFlashcards env_demo request_five_cards, DeleteFlashcard 1]
            empty_db)"
proof -
  have reached: "run_calls Cascade
      [GenerateFlashcards env_demo request_five_cards, DeleteFlashcard 1] empty_db
      = db_three_cards\<lparr>flashcard_sets := [], flashcards := []\<rparr>"
    by (simp add: run_calls_def run_call_def generate_three_cards db_three_cards_eq
        delete_flashcard_def sql_delete_flashcard_set_def sql_delete_def sql_select_def Let_def)
  note save_flashcard_status_missing_set
    [of db_orphans "\<lparr>st_setId = 1, st_cardId = 9, st_known = True\<rparr>" Cascade "[]"]
    save_flashcard_status_missing_set
    [of empty_db "\<lparr>st_setId = 1, st_cardId = 2, st_known = True\<rparr>" Cascade
        "[GenerateFlashcards env_demo request_five_cards, DeleteFlashcard 1]"]
  then show ?thesis
    by (simp add: db_orphans_eq reached)
qed

text \<open>
  The claim as stated fails on the store that generate-flashcards and then
  \<open>DELETE /flashcard/1\<close> leave when the schema has no cascading foreign key: set 1 is
  gone, its three cards remain, and a status call for set 1 and card 2 answers 404 and
  has marked card 2 known.
\<close>

theorem save_flashcard_status_orphan_counterexample:
  "flashcard_sets db_orphans = []
   \<and> map known (flashcards db_orphans) = [False, False, False]
   \<and> fst (save_flashcard_status \<lparr>st_setId = 1, st_cardId = 2, st_known = True\<rparr> db_orphans)
       = Inl (NotFound ''Flashcard set not found'')
   \<and> map known (flashcards (snd (save_flashcard_status
         \<lparr>st_setId = 1, st_cardId = 2, st_known = True\<rparr> db_orphans))) = [False, True, False]"
  by (simp add: db_orphans_eq save_flashcard_status_def sql_update_def sql_select_def Let_def)

subsection \<open>Deleting a flashcard set\<close>

text \<open>
  Claim C3, as the code has it. The handler deletes the rows of \<open>flashcard_sets\<close> with
  the id and issues no statement on \<open>flashcards\<close>: without a foreign key, and with a
  restricting one, every card row remains. Only under \<open>ON DELETE CASCADE\<close> does deleting
  an existing set leave exactly the cards of the other sets, none with that setId.
\<close>

theorem delete_flashcard_cards:
  "flashcards (snd (delete_flashcard NoForeignKey i d)) = flashcards d
   \<and> flashcards (snd (delete_flashcard Restrict i d)) = flashcards d
   \<and> ((\<exists>s \<in> set (flashcard_sets d). fs_id s = i) \<longrightarrow>
        fst (delete_flashcard Cascade i d) = Inr ()
        \<and> flashcards (snd (delete_flashcard Cascade i d))
            = filter (\<lambda>c. set_id c \<noteq> i) (flashcards d)
        \<and> (\<forall>c \<in> set (flashcards (snd (delete_flashcard Cascade i d))). set_id c \<noteq> i))
   \<and> (fk \<noteq> Restrict \<longrightarrow>
        fst (delete_flashcard fk i d) = Inr ()
        \<and> flashcard_sets (snd (delete_flashcard fk i d))
            = filter (\<lambda>s. fs_id s \<noteq> i) (flashcard_sets d))"
  by (cases fk)
     (auto simp: delete_flashcard_def sql_delete_flashcard_set_def sql_delete_def sql_select_def
       Let_def filter_empty_conv)

theorem delete_flashcard_cards_witness:
  "fst (delete_flashcard Cascade 1 db_three_cards) = Inr ()
   \<and> flashcards (snd (delete_flashcard Cascade 1 db_three_cards)) = []
   \<and> flashcard_sets (snd (delete_flashcard Cascade 1 db_three_cards)) = []
   \<and> flashcards (snd (delete_flashcard NoForeignKey 1 db_three_cards)) = flashcards db_three_cards"
  using delete_flashcard_cards [of 1 db_three_cards Cascade]
  by (simp add: db_three_cards_eq)

text \<open>
  With no cascade in the database, deleting set 1 of the sample store succeeds and
  leaves its three cards behind.
\<close>

theorem delete_flashcard_orphans_counterexample:
  "fst (delete_flashcard NoForeignKey 1 db_three_cards) = Inr ()
   \<and> flashcard_sets (snd (delete_flashcard NoForeignKey 1 db_three_cards)) = []
   \<and> map set_id (flashcards (snd (delete_flashcard NoForeignKey 1 db_three_cards))) = [1, 1, 1]"
  by (simp add: db_three_cards_eq delete_flashcard_def
      sql_delete_flashcard_set_def sql_delete_def sql_select_def Let_def)

subsection \<open>The dashboard\<close>

lemma completed_of_div: "completed_of p = (progress p * json_length p) div 100"
proof -
  have "(rat_of_int (progress p) / 100) * rat_of_int (json_length p)
      = rat_of_int (progress p * json_length p) / rat_of_int 100"
    by simp
  then show ?thesis
    unfolding completed_of_def by (simp only: floor_divide_of_int_eq)
qed

lemma or_zero_sql_sum: "or_zero (sql_sum xs) = sum_list xs"
  by (simp add: or_zero_def sql_sum_def)

text \<open>
  Claim C8, as the code has it. \<open>totalFlashcards\<close> is the sum of \<open>total_count\<close> over the
  flashcard sets. \<open>totalTasks\<close> is the sum over the study plans of the number of week
  entries of the plan (\<open>JSON_LENGTH(plan_json)\<close>), and \<open>completedTasks\<close> the sum over the
  plans of \<open>floor(progress / 100 * that number)\<close>; the \<open>tasks\<close> arrays inside the week
  entries are not counted.
\<close>

theorem dashboard_stats_sums:
  "totalFlashcards (dashboard_stats d) = (\<Sum>s\<leftarrow>flashcard_sets d. int (total_count s))
   \<and> totalTasks (dashboard_stats d) = (\<Sum>p\<leftarrow>study_plans d. int (length (plan_json p)))
   \<and> completedTasks (dashboard_stats d)
       = (\<Sum>p\<leftarrow>study_plans d. (progress p * int (length (plan_json p))) div 100)"
proof -
  have "completed_of = (\<lambda>p. (progress p * int (length (plan_json p))) div 100)"
    by (rule ext) (simp add: completed_of_div json_length_def)
  moreover have "json_length = (\<lambda>p. int (length (plan_json p)))"
    by (rule ext) (simp add: json_length_def)
  ultimately show ?thesis
    by (simp add: dashboard_stats_def Let_def or_zero_sql_sum)
qed

text \<open>
  One plan of one week with three tasks, at 100 percent: one task in all and one
  completed, where the task arrays hold three.
\<close>

theorem dashboard_stats_tasks_counterexample:
  "totalTasks (dashboard_stats db_one_plan) = 1
   \<and> completedTasks (dashboard_stats db_one_plan) = 1
   \<and> (\<Sum>p\<leftarrow>study_plans db_one_plan. \<Sum>w\<leftarrow>plan_json p. int (length (tasks w))) = 3"
  by (simp add: dashboard_stats_def Let_def or_zero_sql_sum completed_of_div json_length_def
      db_one_plan_def plan_row_7_def)

subsection \<open>Export file names\<close>

lemma show_int_samples:
  "show_int 0 = ''0''" "show_int 1 = ''1''" "show_int 2 = ''2''" "show_int 3 = ''3''"
  "show_int 14 = ''14''" "show_int 1000 = ''1000''"
  by (simp_all add: show_int_def show_nat.simps digit_char_def)

lemma not_space_hyphen [simp]: "\<not> is_space CHR ''-''"
  by (simp add: is_space_def)






lemma sql_select_find_None: "find P xs = None \<Longrightarrow> sql_select P xs = []"
  by (simp add: sql_select_def find_None_iff filter_empty_conv)

lemma sql_select_find_Some: "find P xs = Some x \<Longrightarrow> \<exists>rest. sql_select P xs = x # rest"
  by (induction xs) (auto simp: sql_select_def split: if_splits)

lemma formatStudyPlanForExport_nonempty [simp]: "formatStudyPlanForExport e p \<noteq> []"
  by (simp add: formatStudyPlanForExport_def Let_def)

lemma formatFlashcardsForExport_nonempty [simp]: "formatFlashcardsForExport e s cs \<noteq> []"
  by (simp add: formatFlashcardsForExport_def Let_def)

lemma formatChatHistoryForExport_nonempty [simp]: "formatChatHistoryForExport e h \<noteq> []"
  by (simp add: formatChatHistoryForExport_def Let_def)

lemma export_stamp_eq:
  "pre @ ''-'' @ slug @ export_stamp e req = spec_filename pre slug (now e) (ex_format req)"
  by (simp add: export_stamp_def spec_filename_def)

lemma export_study:
  assumes "ex_type req = ''study''"
  shows "download_export e req d =
     (case find (\<lambda>p. sp_id p = ex_id req) (study_plans d) of
        None \<Rightarrow> Inl (NotFound ''Content not found'')
      | Some p \<Rightarrow> Inr \<lparr>ex_content = formatStudyPlanForExport e p,
          ex_filename = spec_filename ''study-plan'' (replace_ws (course_name p)) (now e) (ex_format req)\<rparr>)"
proof (cases "find (\<lambda>p. sp_id p = ex_id req) (study_plans d)")
  case None
  with assms show ?thesis
    by (simp add: download_export_def export_switch_def sql_select_find_None)
next
  case (Some p)
  from sql_select_find_Some [OF this] obtain rest
    where "sql_select (\<lambda>p. sp_id p = ex_id req) (study_plans d) = p # rest" ..
  with assms Some show ?thesis
    by (simp add: download_export_def export_switch_def export_stamp_eq [symmetric])
qed


lemma export_flashcards:
  assumes "ex_type req = ''flashcards''"
  shows "download_export e req d =
     (case find (\<lambda>s. fs_id s = ex_id req) (flashcard_sets d) of
        None \<Rightarrow> Inl (NotFound ''Content not found'')
      | Some s \<Rightarrow> Inr \<lparr>ex_content = formatFlashcardsForExport e s
              (sql_select (\<lambda>c. set_id c = ex_id req) (flashcards d)),
          ex_filename = spec_filename ''flashcards'' (replace_ws (fs_topic s)) (now e) (ex_format req)\<rparr>)"
proof (cases "find (\<lambda>s. fs_id s = ex_id req) (flashcard_sets d)")
  case None
  with assms show ?thesis
    by (simp add: download_export_def export_switch_def sql_select_find_None)
next
  case (Some s)
  from sql_select_find_Some [OF this] obtain rest
    where "sql_select (\<lambda>s. fs_id s = ex_id req) (flashcard_sets d) = s # rest" ..
  with assms Some show ?thesis
    by (simp add: download_export_def export_switch_def export_stamp_eq [symmetric])
qed






subsection \<open>Export texts\<close>

lemma sublist_trans: "sublist xs ys \<Longrightarrow> sublist ys zs \<Longrightarrow> sublist xs zs"
  unfolding sublist_def by (metis append.assoc)

lemma sublist_skip: "sublist xs zs \<Longrightarrow> sublist xs (ys @ zs)"
  unfolding sublist_def by (metis append.assoc)

lemma sublist_keep: "sublist xs ys \<Longrightarrow> sublist xs (ys @ zs)"
  unfolding sublist_def by (metis append.assoc)

lemma sublist_join: "x \<in> set xs \<Longrightarrow> sublist x (join sep xs)"
proof (induction sep xs rule: join.induct)
  case (1 sep)
  then show ?case by simp
next
  case (2 sep y)
  then show ?case by simp
next
  case (3 sep y z zs)
  show ?case
  proof (cases "x = y")
    case True
    then show ?thesis by simp
  next
    case False
    with 3 have "sublist x (join sep (z # zs))" by simp
    then show ?thesis by (simp add: sublist_skip)
  qed
qed

lemma format_week_fields:
  "sublist ('': '' @ topic w @ nl @ ''Hours: '' @ show_int (hours w) @ nl) (format_week w)"
  "t \<in> set (tasks w) \<Longrightarrow> sublist (task_prefix @ t) (format_week w)"
proof -
  have "format_week w = (''Week '' @ show_int (week w))
      @ ('': '' @ topic w @ nl @ ''Hours: '' @ show_int (hours w) @ nl)
      @ (''Tasks:'' @ nl @ join nl (map (\<lambda>t. task_prefix @ t) (tasks w)) @ nl)"
    by (simp add: format_week_def)
  then show "sublist ('': '' @ topic w @ nl @ ''Hours: '' @ show_int (hours w) @ nl) (format_week w)"
    by (simp only: sublist_appendI)
next
  assume "t \<in> set (tasks w)"
  then have "sublist (task_prefix @ t) (join nl (map (\<lambda>t. task_prefix @ t) (tasks w)))"
    by (intro sublist_join) simp
  then have "sublist (task_prefix @ t) ((''Week '' @ show_int (week w) @ '': '' @ topic w @ nl
      @ ''Hours: '' @ show_int (hours w) @ nl @ ''Tasks:'' @ nl)
      @ join nl (map (\<lambda>t. task_prefix @ t) (tasks w)) @ nl)"
    by (intro sublist_skip sublist_keep)
  then show "sublist (task_prefix @ t) (format_week w)"
    by (simp add: format_week_def)
qed

lemma formatStudyPlanForExport_fields: "plan_fields_in p (formatStudyPlanForExport e p)"
proof -
  define tl_text where "tl_text = nl @ ''Created: '' @ toLocaleString e (sp_created_at p) @ nl"
  define weeks where "weeks = join nl (map format_week (plan_json p))"
  have layout: "formatStudyPlanForExport e p =
      (''STUDY PLAN: '' @ course_name p @ nl)
      @ (rule50 @ nl @ nl @ ''Deadline: '' @ toLocaleDateString e (deadline p) @ nl)
      @ (''Hours per day: '' @ show_int (hours_per_day p) @ nl)
      @ (''Total hours: '' @ show_number (total_hours p) @ nl)
      @ (''Progress: '' @ show_int (progress p) @ ''%'')
      @ (nl @ nl) @ weeks @ tl_text"
    by (simp add: formatStudyPlanForExport_def Let_def tl_text_def weeks_def)
  have a: "sublist (''STUDY PLAN: '' @ course_name p @ nl) (formatStudyPlanForExport e p)"
    unfolding layout by (rule sublist_append_rightI)
  have b: "sublist (''Hours per day: '' @ show_int (hours_per_day p) @ nl)
      (formatStudyPlanForExport e p)"
    unfolding layout by (intro sublist_skip sublist_append_rightI)
  have c: "sublist (''Total hours: '' @ show_number (total_hours p) @ nl)
      (formatStudyPlanForExport e p)"
    unfolding layout by (intro sublist_skip sublist_append_rightI)
  have d: "sublist (''Progress: '' @ show_int (progress p) @ ''%'')
      (formatStudyPlanForExport e p)"
    unfolding layout by (intro sublist_skip sublist_append_rightI)
  have wk: "sublist weeks (formatStudyPlanForExport e p)"
    unfolding layout by (intro sublist_skip sublist_append_rightI)
  have e: "sublist x (formatStudyPlanForExport e p)"
    if "w \<in> set (plan_json p)" "sublist x (format_week w)" for w x
  proof -
    from that(1) have "sublist (format_week w) weeks"
      unfolding weeks_def by (intro sublist_join) simp
    with that(2) wk show ?thesis by (blast intro: sublist_trans)
  qed
  show ?thesis
    unfolding plan_fields_in_def using a b c d e format_week_fields by blast
qed

lemma format_card_fields:
  "sublist (''Q: '' @ question c @ nl @ ''A: '' @ answer c @ nl) (format_card (i, c))"
proof -
  have "format_card (i, c) = (''Card '' @ show_int (int i + 1) @ '':'' @ nl)
      @ (''Q: '' @ question c @ nl @ ''A: '' @ answer c @ nl)
      @ (''Status: '' @ (if known c then ''Known'' else ''Unknown'') @ nl)"
    by (simp add: format_card_def)
  then show ?thesis by (simp only: sublist_appendI)
qed

lemma formatFlashcardsForExport_fields:
  "sublist (''FLASHCARDS: '' @ fs_topic s @ nl) (formatFlashcardsForExport e s cs)"
  "sublist (''Total Cards: '' @ show_int (int (total_count s)) @ nl) (formatFlashcardsForExport e s cs)"
  "sublist (''Known: '' @ show_int (int (known_count s)) @ nl) (formatFlashcardsForExport e s cs)"
  "c \<in> set cs \<Longrightarrow>
     sublist (''Q: '' @ question c @ nl @ ''A: '' @ answer c @ nl) (formatFlashcardsForExport e s cs)"
proof -
  define body where "body = join nl (map format_card (enumerate 0 cs))"
  define tl_text where "tl_text = ''Created: '' @ toLocaleString e (fs_created_at s) @ nl"
  have layout: "formatFlashcardsForExport e s cs =
      (''FLASHCARDS: '' @ fs_topic s @ nl) @ (rule50 @ nl @ nl)
      @ (''Total Cards: '' @ show_int (int (total_count s)) @ nl)
      @ (''Known: '' @ show_int (int (known_count s)) @ nl)
      @ nl @ body @ tl_text"
    by (simp add: formatFlashcardsForExport_def Let_def body_def tl_text_def)
  show "sublist (''FLASHCARDS: '' @ fs_topic s @ nl) (formatFlashcardsForExport e s cs)"
    unfolding layout by (rule sublist_append_rightI)
  show "sublist (''Total Cards: '' @ show_int (int (total_count s)) @ nl)
      (formatFlashcardsForExport e s cs)"
    unfolding layout by (intro sublist_skip sublist_append_rightI)
  show "sublist (''Known: '' @ show_int (int (known_count s)) @ nl)
      (formatFlashcardsForExport e s cs)"
    unfolding layout by (intro sublist_skip sublist_append_rightI)
  have bd: "sublist body (formatFlashcardsForExport e s cs)"
    unfolding layout by (intro sublist_skip sublist_append_rightI)
  show "sublist (''Q: '' @ question c @ nl @ ''A: '' @ answer c @ nl)
      (formatFlashcardsForExport e s cs)" if "c \<in> set cs"
  proof -
    from that obtain i where "i < length cs" "cs ! i = c"
      by (auto simp: in_set_conv_nth)
    then have "(i, c) \<in> set (enumerate 0 cs)"
      by (simp add: in_set_enumerate_eq)
    then have "format_card (i, c) \<in> set (map format_card (enumerate 0 cs))"
      by (simp only: set_map) (rule imageI)
    then have "sublist (format_card (i, c)) body"
      unfolding body_def by (rule sublist_join)
    with format_card_fields [of c i] bd show ?thesis
      by (blast intro: sublist_trans)
  qed
qed

lemma find_new_row:
  "\<forall>x \<in> set xs. \<not> P x \<Longrightarrow> P y \<Longrightarrow> find P (xs @ [y]) = Some y"
  by (induction xs) simp_all

lemma generate_study_plan_Inr:
  assumes "generate_study_plan e req d = (Inr p, d1)"
  shows "sp_id p = next_plan_id d \<and> study_plans d1 = study_plans d @ [p]"
  using assms
  by (auto simp: generate_study_plan_def Let_def split: if_splits option.splits)

lemma generate_flashcards_Inr:
  assumes "generate_flashcards e req d = (Inr v, d2)"
  shows "\<exists>gs. generate_cards e (cards_prompt_of req) = Some gs"
  using assms by (auto simp: generate_flashcards_def split: option.splits)

lemma new_card_views_rows:
  "c \<in> set (new_card_views n gs) \<Longrightarrow>
     \<exists>r \<in> set (new_card_rows sid n gs). question r = cv_question c \<and> answer r = cv_answer c"
  by (induction gs arbitrary: n) auto

text \<open>
  Claim C6. On a store whose ids are below the AUTO_INCREMENT counters, the study plan
  that generate-study-plan has just answered with, exported by its id, gives a text
  that holds its course name, hours per day, total hours and progress, and of every
  week the topic, the hours and each task; and the flashcard set that
  generate-flashcards has just answered with gives a text that holds its topic, its
  total and known counts and of every card the question and the answer.
\<close>

theorem export_reproduces_fields:
  assumes "auto_increment_ok d"
  shows "(generate_study_plan e req d = (Inr p, d1) \<longrightarrow>
            (\<exists>r. download_export e' \<lparr>ex_type = ''study'', ex_id = sp_id p, ex_format = f\<rparr> d1 = Inr r
                 \<and> plan_fields_in p (ex_content r)))
       \<and> (generate_flashcards e req' d = (Inr v, d2) \<longrightarrow>
            (\<exists>r. download_export e' \<lparr>ex_type = ''flashcards'', ex_id = fsv_id v, ex_format = f\<rparr> d2
                   = Inr r
                 \<and> set_fields_in v (ex_content r)))"
proof (intro conjI impI)
  assume gen: "generate_study_plan e req d = (Inr p, d1)"
  from generate_study_plan_Inr [OF gen]
  have p: "sp_id p = next_plan_id d" "study_plans d1 = study_plans d @ [p]" by simp_all
  from assms have "\<forall>q \<in> set (study_plans d). \<not> sp_id q = sp_id p"
    by (auto simp: auto_increment_ok_def p(1))
  then have "find (\<lambda>q. sp_id q = sp_id p) (study_plans d1) = Some p"
    unfolding p(2) by (rule find_new_row) simp
  then have "download_export e' \<lparr>ex_type = ''study'', ex_id = sp_id p, ex_format = f\<rparr> d1
      = Inr \<lparr>ex_content = formatStudyPlanForExport e' p,
          ex_filename = spec_filename ''study-plan'' (replace_ws (course_name p)) (now e') f\<rparr>"
    by (simp add: export_study)
  then show "\<exists>r. download_export e' \<lparr>ex_type = ''study'', ex_id = sp_id p, ex_format = f\<rparr> d1 = Inr r
      \<and> plan_fields_in p (ex_content r)"
    by (simp add: formatStudyPlanForExport_fields)
next
  assume gen: "generate_flashcards e req' d = (Inr v, d2)"
  from generate_flashcards_Inr [OF gen] obtain gs
    where gs: "generate_cards e (cards_prompt_of req') = Some gs" ..
  define s where "s = \<lparr>fs_id = next_set_id d, fs_topic = topic_or_default (gf_topic req'),
      total_count = length gs, known_count = 0, fs_created_at = now e\<rparr>"
  define sel where "sel = sql_select (\<lambda>c. set_id c = next_set_id d) (flashcards d2)"
  from gen have v: "v = \<lparr>fsv_id = next_set_id d, fsv_topic = topic_or_default (gf_topic req'),
           cards = new_card_views (next_card_id d) gs, createdAt = now e, knownCount = 0,
           totalCount = length gs\<rparr>"
    and sets: "flashcard_sets d2 = flashcard_sets d @ [s]"
    and rows: "flashcards d2 = flashcards d @ new_card_rows (next_set_id d) (next_card_id d) gs"
    unfolding generate_flashcards_closed [OF gs] s_def by auto
  from assms have "\<forall>q \<in> set (flashcard_sets d). \<not> fs_id q = next_set_id d"
    by (auto simp: auto_increment_ok_def)
  then have "find (\<lambda>q. fs_id q = next_set_id d) (flashcard_sets d2) = Some s"
    unfolding sets by (rule find_new_row) (simp add: s_def)
  then have ex: "download_export e' \<lparr>ex_type = ''flashcards'', ex_id = fsv_id v, ex_format = f\<rparr> d2
      = Inr \<lparr>ex_content = formatFlashcardsForExport e' s sel,
          ex_filename = spec_filename ''flashcards'' (replace_ws (fs_topic s)) (now e') f\<rparr>"
    by (simp add: export_flashcards v sel_def)
  have cards: "sublist (''Q: '' @ cv_question c @ nl @ ''A: '' @ cv_answer c @ nl)
      (formatFlashcardsForExport e' s sel)" if "c \<in> set (cards v)" for c
  proof -
    from that obtain r where r: "r \<in> set (new_card_rows (next_set_id d) (next_card_id d) gs)"
      "question r = cv_question c" "answer r = cv_answer c"
      using new_card_views_rows [of c "next_card_id d" gs "next_set_id d"] by (auto simp: v)
    from r(1) have "set_id r = next_set_id d"
      by (simp add: new_card_rows_unknown)
    with r(1) have "r \<in> set sel"
      by (simp add: sel_def sql_select_def rows)
    from formatFlashcardsForExport_fields(4) [OF this, of e' s] r(2,3) show ?thesis
      by simp
  qed
  have "set_fields_in v (formatFlashcardsForExport e' s sel)"
    unfolding set_fields_in_def
    using formatFlashcardsForExport_fields(1-3) [of s e' sel] cards
    by (simp add: v s_def)
  with ex show "\<exists>r. download_export e' \<lparr>ex_type = ''flashcards'', ex_id = fsv_id v, ex_format = f\<rparr> d2
      = Inr r \<and> set_fields_in v (ex_content r)"
    by simp
qed

text \<open>The two inserting routes keep the ids below the counters.\<close>

lemma auto_increment_ok_generate_study_plan:
  "auto_increment_ok d \<Longrightarrow> auto_increment_ok (snd (generate_study_plan e req d))"
  by (fastforce simp: auto_increment_ok_def generate_study_plan_def Let_def
      split: option.splits)

lemma auto_increment_ok_generate_flashcards:
  assumes "auto_increment_ok d"
  shows "auto_increment_ok (snd (generate_flashcards e req d))"
proof (cases "generate_cards e (cards_prompt_of req)")
  case None
  with assms show ?thesis by (simp add: generate_flashcards_def)
next
  case (Some gs)
  from assms show ?thesis
    unfolding generate_flashcards_closed [OF Some]
    by (fastforce simp: auto_increment_ok_def)
qed

text \<open>The two sample exports.\<close>

lemma auto_increment_ok_empty: "auto_increment_ok empty_db"
  by (simp add: auto_increment_ok_def empty_db_def)

theorem export_reproduces_fields_witness:
  "auto_increment_ok empty_db
   \<and> generate_study_plan env_demo request_week empty_db = (Inr plan_week, db_week)
   \<and> (\<exists>r. download_export env_demo \<lparr>ex_type = ''study'', ex_id = 1, ex_format = ''txt''\<rparr> db_week
            = Inr r \<and> plan_fields_in plan_week (ex_content r))
   \<and> generate_flashcards env_demo request_five_cards empty_db
       = (Inr view_three_cards, db_three_cards)
   \<and> (\<exists>r. download_export env_demo \<lparr>ex_type = ''flashcards'', ex_id = 1, ex_format = ''txt''\<rparr>
              db_three_cards = Inr r
          \<and> set_fields_in view_three_cards (ex_content r))"
  using export_reproduces_fields [OF auto_increment_ok_empty,
      of env_demo request_week plan_week db_week env_demo "''txt''" request_five_cards
         view_three_cards db_three_cards]
  by (simp add: auto_increment_ok_empty generate_week generate_three_cards)
     (simp add: plan_week_def view_three_cards_def)

text \<open>The export text of the sample plan, in full.\<close>

lemma export_week_text:
  "download_export env_demo \<lparr>ex_type = ''study'', ex_id = 1, ex_format = ''txt''\<rparr> db_week
     = Inr \<lparr>ex_content = ''STUDY PLAN: Algebra'' @ nl @ rule50 @ nl @ nl
         @ ''Deadline: 1970-01-08'' @ nl @ ''Hours per day: 2'' @ nl @ ''Total hours: 14'' @ nl
         @ ''Progress: 0%'' @ nl @ nl @ ''Week 1: Groups'' @ nl @ ''Hours: 14'' @ nl
         @ ''Tasks:'' @ nl @ task_prefix @ ''Read chapter 1'' @ nl @ task_prefix @ ''Exercises''
         @ nl @ task_prefix @ ''Quiz''
         @ nl @ nl @ ''Created: 1000'' @ nl,
       ex_filename = ''study-plan-Algebra-1000.txt''\<rparr>"
  by (simp add: export_study db_week_def plan_week_def empty_db_def spec_filename_def
      formatStudyPlanForExport_def format_week_def env_demo_def show_int_samples
      show_number_def Let_def is_space_def)

end
